theory Spec2Isabelle
  imports Main
begin

section \<open>Documents\<close>

text \<open>
  The payment and publication core of the back end: the Mongoose documents of
  \<^verbatim>\<open>models/Payment.js\<close>, the Business and Order schemas, and the handlers of
  \<^verbatim>\<open>routes/payments.js\<close> and \<^verbatim>\<open>routes/admin.js\<close> that write them.

  An ObjectId is a natural number, a timestamp (\<^verbatim>\<open>new Date()\<close>) is a natural number
  handed to the handler, and a status is the string the code stores.  A field that
  JavaScript leaves \<^verbatim>\<open>undefined\<close> is \<open>None\<close>.
\<close>

type_synonym oid = nat
type_synonym date = nat

datatype mixed = MStr string | MId oid | MNum nat

text \<open>\<^verbatim>\<open>req.user\<close>, as the \<^verbatim>\<open>protect\<close> middleware loads it.\<close>

record user_doc =
  u_id :: oid
  userType :: string
  firstName :: string
  lastName :: string
  email :: string

record business =
  b_id :: oid
  b_owner :: oid
  b_name :: string
  isApproved :: bool
  isActive :: bool
  paymentStatus :: string
  b_status :: string
  paymentId :: "oid option"
  approvedAt :: "date option"
  rejectedAt :: "date option"
  rejectionReason :: "string option"

record payment =
  p_id :: oid
  p_user :: oid
  p_business :: oid
  stripePaymentIntentId :: string
  stripeCustomerId :: string
  amount :: nat
  currency :: string
  status :: string
  description :: string
  metadata :: "(string \<times> mixed) list"
  failureReason :: "string option"

record item =
  i_name :: string
  i_description :: string
  i_amount :: nat
  i_quantity :: nat

record billing =
  bd_name :: string
  bd_email :: string
  bd_address :: "(string \<times> string) list"

record order =
  o_id :: oid
  orderNumber :: string
  o_user :: oid
  o_business :: oid
  o_payment :: oid
  items :: "item list"
  subtotal :: nat
  taxes :: nat
  total :: nat
  o_currency :: string
  o_status :: string
  billingDetails :: billing
  completedAt :: "date option"

record system_log =
  logType :: string
  l_user :: "oid option"
  l_business :: "oid option"
  l_description :: string
  l_details :: "(string \<times> mixed) list"

record notification =
  recipient :: oid
  n_type :: string
  title :: string
  message :: string

subsection \<open>The payment gateway\<close>

text \<open>
  The object \<^verbatim>\<open>stripe.paymentIntents.retrieve\<close> returns and a webhook event carries.
  \<open>last_payment_error\<close> is \<^verbatim>\<open>last_payment_error?.message\<close>; the two billing fields are
  \<^verbatim>\<open>charges?.data[0]?.billing_details?.name\<close> and \<^verbatim>\<open>...?.address\<close>.
\<close>

record payment_intent =
  pi_id :: string
  pi_status :: string
  pi_amount :: nat
  client_secret :: string
  last_payment_error :: "string option"
  billing_name :: "string option"
  billing_address :: "(string \<times> string) list option"

record customer =
  c_id :: string

text \<open>
  The gateway is outside the program: each call is a function of its arguments whose
  result \<open>None\<close> is a thrown error.  Every call made is recorded in the state.
\<close>

record gateway =
  customers_list :: "string \<Rightarrow> customer list option"
  customers_create :: "string \<Rightarrow> string \<Rightarrow> customer option"
  paymentIntents_create :: "nat \<Rightarrow> string \<Rightarrow> string \<Rightarrow> string \<Rightarrow> payment_intent option"
  paymentIntents_retrieve :: "string \<Rightarrow> payment_intent option"

datatype gw_call =
    CustomersList string
  | CustomersCreate string string
  | PaymentIntentsCreate nat string string string
  | PaymentIntentsRetrieve string

record event =
  ev_type :: string
  ev_object :: payment_intent

subsection \<open>The database\<close>

record state =
  businesses :: "business list"
  payments :: "payment list"
  orders :: "order list"
  systemLogs :: "system_log list"
  notifications :: "notification list"
  gatewayCalls :: "gw_call list"

text \<open>
  Any database call may throw (connection lost, write rejected).  The set of faults names
  the calls that throw; the empty set is a database that works.
\<close>

datatype db_op =
    BusinessFind | BusinessSave | BusinessUpdate
  | PaymentFind | PaymentSave | PaymentCreate
  | OrderCreate | SystemLogCreate | NotificationCreate

type_synonym faults = "db_op set"

text \<open>The ledger: what the claims call the final state of a reconciliation.\<close>

definition ledger :: "state \<Rightarrow> payment list \<times> order list \<times> business list" where
  "ledger s = (payments s, orders s, businesses s)"

text \<open>\<^verbatim>\<open>updateOne\<close>: the first document that matches the filter is rewritten.\<close>

fun updateOne :: "('a \<Rightarrow> bool) \<Rightarrow> ('a \<Rightarrow> 'a) \<Rightarrow> 'a list \<Rightarrow> 'a list" where
  "updateOne q f [] = []"
| "updateOne q f (x # xs) = (if q x then f x # xs else x # updateOne q f xs)"

definition fresh_oid :: "oid list \<Rightarrow> oid" where
  "fresh_oid ids = Suc (fold max ids 0)"

text \<open>Setting a property of a JavaScript object: replaced in place, or appended.\<close>

fun set_field :: "string \<Rightarrow> mixed \<Rightarrow> (string \<times> mixed) list \<Rightarrow> (string \<times> mixed) list" where
  "set_field k v [] = [(k, v)]"
| "set_field k v (kv # kvs) = (if fst kv = k then (k, v) # kvs else kv # set_field k v kvs)"

text \<open>\<^verbatim>\<open>x || d\<close> on a string that may be undefined: the empty string is falsy as well.\<close>

fun js_or :: "string option \<Rightarrow> string \<Rightarrow> string" where
  "js_or None d = d"
| "js_or (Some v) d = (if v = [] then d else v)"

fun js_or_obj :: "'a list option \<Rightarrow> 'a list \<Rightarrow> 'a list" where
  "js_or_obj None d = d"
| "js_or_obj (Some v) d = v"

text \<open>Decimal rendering of a number inside a template string.\<close>

definition digit_char :: "nat \<Rightarrow> char" where
  "digit_char d = char_of (48 + d)"

function string_of_nat :: "nat \<Rightarrow> string" where
  "string_of_nat n =
     (if n < 10 then [digit_char n] else string_of_nat (n div 10) @ [digit_char (n mod 10)])"
  by pat_completeness auto
termination
  by (relation "measure id") auto

declare string_of_nat.simps [simp del]

text \<open>
  The enum of \<^verbatim>\<open>status\<close> in the Payment schema.  \<^verbatim>\<open>save()\<close> validates the document
  and throws when the status is not one of these; otherwise it stores the document as the
  handler holds it, every field.
\<close>

definition payment_status_enum :: "string list" where
  "payment_status_enum =
     [''pending'', ''succeeded'', ''failed'', ''canceled'', ''requires_payment_method'',
      ''requires_confirmation'', ''requires_action'', ''processing'']"

definition payment_save :: "faults \<Rightarrow> payment \<Rightarrow> state \<Rightarrow> state option" where
  "payment_save F p s =
     (if PaymentSave \<in> F then None
      else if status p \<in> set payment_status_enum
      then Some (s\<lparr>payments := updateOne (\<lambda>q. p_id q = p_id p) (\<lambda>q. p) (payments s)\<rparr>)
      else None)"

text \<open>
  \<^verbatim>\<open>Payment.create\<close>: a new _id; the unique index on \<^verbatim>\<open>stripePaymentIntentId\<close>
  rejects a duplicate.
\<close>

definition Payment_create :: "faults \<Rightarrow> (oid \<Rightarrow> payment) \<Rightarrow> state \<Rightarrow> (payment \<times> state) option" where
  "Payment_create F mk s =
     (if PaymentCreate \<in> F then None
      else let p = mk (fresh_oid (map p_id (payments s))) in
        if stripePaymentIntentId p \<in> set (map stripePaymentIntentId (payments s)) then None
        else if status p \<in> set payment_status_enum
        then Some (p, s\<lparr>payments := payments s @ [p]\<rparr>)
        else None)"

text \<open>\<^verbatim>\<open>Order.create\<close>: a new _id; the unique index on \<^verbatim>\<open>orderNumber\<close> rejects a duplicate.\<close>

definition Order_create :: "faults \<Rightarrow> (oid \<Rightarrow> order) \<Rightarrow> state \<Rightarrow> (order \<times> state) option" where
  "Order_create F mk s =
     (if OrderCreate \<in> F then None
      else let ord = mk (fresh_oid (map o_id (orders s))) in
        if orderNumber ord \<in> set (map orderNumber (orders s)) then None
        else Some (ord, s\<lparr>orders := orders s @ [ord]\<rparr>))"

definition Business_findByIdAndUpdate ::
    "faults \<Rightarrow> oid \<Rightarrow> (business \<Rightarrow> business) \<Rightarrow> state \<Rightarrow> state option" where
  "Business_findByIdAndUpdate F i f s =
     (if BusinessUpdate \<in> F then None
      else Some (s\<lparr>businesses := updateOne (\<lambda>b. b_id b = i) f (businesses s)\<rparr>))"

definition business_save :: "faults \<Rightarrow> business \<Rightarrow> state \<Rightarrow> state option" where
  "business_save F b s =
     (if BusinessSave \<in> F then None
      else Some (s\<lparr>businesses := updateOne (\<lambda>q. b_id q = b_id b) (\<lambda>q. b) (businesses s)\<rparr>))"

definition SystemLog_create :: "faults \<Rightarrow> system_log \<Rightarrow> state \<Rightarrow> state option" where
  "SystemLog_create F l s =
     (if SystemLogCreate \<in> F then None
      else Some (s\<lparr>systemLogs := systemLogs s @ [l]\<rparr>))"

text \<open>
  The Notification schema limits \<^verbatim>\<open>title\<close> to 100 characters and \<^verbatim>\<open>message\<close> to 500:
  \<^verbatim>\<open>Notification.create\<close> throws a validation error for a longer one.
\<close>

definition notification_valid :: "notification \<Rightarrow> bool" where
  "notification_valid n = (length (title n) \<le> 100 \<and> length (message n) \<le> 500)"

definition Notification_create :: "faults \<Rightarrow> notification \<Rightarrow> state \<Rightarrow> state option" where
  "Notification_create F n s =
     (if NotificationCreate \<in> F then None
      else if notification_valid n then Some (s\<lparr>notifications := notifications s @ [n]\<rparr>)
      else None)"

definition gateway_call :: "gw_call \<Rightarrow> state \<Rightarrow> state" where
  "gateway_call c s = s\<lparr>gatewayCalls := gatewayCalls s @ [c]\<rparr>"

section \<open>Responses\<close>

record payment_view =
  v_id :: oid
  v_status :: string
  v_amount :: nat
  v_currency :: string
  v_description :: string
  v_failureReason :: "string option"

definition view_of :: "payment \<Rightarrow> payment_view" where
  "view_of p = \<lparr>v_id = p_id p, v_status = status p, v_amount = amount p,
     v_currency = currency p, v_description = description p,
     v_failureReason = failureReason p\<rparr>"

datatype response =
    Forbidden
  | ValidationFailed
  | NotFound string
  | BadRequest string
  | ServerError string
  | AlreadyPaid
  | IntentCreated string oid string
  | PaymentConfirmed payment_view string
  | PaymentStatus payment_view
  | Received
  | WebhookError
  | WebhookHandlerFailed
  | BusinessApproved business
  | BusinessRejected business

fun http_status :: "response \<Rightarrow> nat" where
  "http_status Forbidden = 403"
| "http_status ValidationFailed = 400"
| "http_status (NotFound m) = 404"
| "http_status (BadRequest m) = 400"
| "http_status (ServerError m) = 500"
| "http_status AlreadyPaid = 200"
| "http_status (IntentCreated c i p) = 200"
| "http_status (PaymentConfirmed v m) = 200"
| "http_status (PaymentStatus v) = 200"
| "http_status Received = 200"
| "http_status WebhookError = 400"
| "http_status WebhookHandlerFailed = 500"
| "http_status (BusinessApproved b) = 200"
| "http_status (BusinessRejected b) = 200"

text \<open>The \<^verbatim>\<open>code\<close> field of the JSON body, when the response has one.\<close>

fun response_code :: "response \<Rightarrow> string option" where
  "response_code AlreadyPaid = Some ''BUSINESS_ALREADY_PAID''"
| "response_code r = None"

section \<open>POST /api/payments/create-intent\<close>

text \<open>
  \<open>businessId\<close> is the body field read as an ObjectId, \<open>None\<close> when \<^verbatim>\<open>isMongoId\<close>
  rejects it.
\<close>

definition find_or_create_customer ::
    "gateway \<Rightarrow> user_doc \<Rightarrow> state \<Rightarrow> customer option \<times> state" where
  "find_or_create_customer gw user s =
     (let s1 = gateway_call (CustomersList (email user)) s in
      case customers_list gw (email user) of
        None \<Rightarrow> (None, s1)
      | Some [] \<Rightarrow>
          (customers_create gw (email user) (firstName user @ '' '' @ lastName user),
           gateway_call (CustomersCreate (email user) (firstName user @ '' '' @ lastName user)) s1)
      | Some (c # cs) \<Rightarrow> (Some c, s1))"

definition new_payment :: "user_doc \<Rightarrow> business \<Rightarrow> payment_intent \<Rightarrow> customer \<Rightarrow> oid \<Rightarrow> payment" where
  "new_payment user b paymentIntent stripeCustomer i =
     \<lparr>p_id = i, p_user = u_id user, p_business = b_id b,
      stripePaymentIntentId = pi_id paymentIntent, stripeCustomerId = c_id stripeCustomer,
      amount = 9900, currency = ''usd'', status = ''pending'',
      description = ''Business listing fee for '' @ b_name b,
      metadata = [(''businessName'', MStr (b_name b))], failureReason = None\<rparr>"

text \<open>From \<^verbatim>\<open>stripe.paymentIntents.create\<close> to the response.\<close>

definition create_and_record ::
    "faults \<Rightarrow> gateway \<Rightarrow> user_doc \<Rightarrow> business \<Rightarrow> customer \<Rightarrow> state \<Rightarrow> response \<times> state" where
  "create_and_record F gw user b stripeCustomer s =
     (let s1 = gateway_call
                 (PaymentIntentsCreate 9900 ''usd'' (c_id stripeCustomer)
                    (''Business listing fee for '' @ b_name b)) s
      in case paymentIntents_create gw 9900 ''usd'' (c_id stripeCustomer)
                (''Business listing fee for '' @ b_name b) of
           None \<Rightarrow> (ServerError ''Server error'', s1)
         | Some paymentIntent \<Rightarrow>
             (case Payment_create F (new_payment user b paymentIntent stripeCustomer) s1 of
                None \<Rightarrow> (ServerError ''Server error'', s1)
              | Some (p, s2) \<Rightarrow>
                  (IntentCreated (client_secret paymentIntent) (p_id p) (pi_id paymentIntent), s2)))"

definition create_intent ::
    "faults \<Rightarrow> gateway \<Rightarrow> user_doc \<Rightarrow> oid option \<Rightarrow> state \<Rightarrow> response \<times> state" where
  "create_intent F gw user businessId s =
     (if userType user \<noteq> ''Business'' then (Forbidden, s)
      else (case businessId of
          None \<Rightarrow> (ValidationFailed, s)
        | Some bid \<Rightarrow>
            (if BusinessFind \<in> F then (ServerError ''Server error'', s)
             else (case find (\<lambda>b. b_id b = bid \<and> b_owner b = u_id user) (businesses s) of
                 None \<Rightarrow> (NotFound ''Business not found or unauthorized'', s)
               | Some b \<Rightarrow>
                   (if PaymentFind \<in> F then (ServerError ''Server error'', s)
                    else (case find (\<lambda>p. p_business p = bid \<and> status p = ''succeeded'')
                                 (payments s) of
                        Some existingPayment \<Rightarrow> (AlreadyPaid, s)
                      | None \<Rightarrow>
                          (case find_or_create_customer gw user s of
                             (None, s1) \<Rightarrow> (ServerError ''Error creating customer'', s1)
                           | (Some stripeCustomer, s1) \<Rightarrow>
                               create_and_record F gw user b stripeCustomer s1)))))))"

section \<open>POST /api/payments/confirm\<close>

definition generateOrderNumber :: "nat \<Rightarrow> string" where
  "generateOrderNumber rnd = ''ORD-'' @ string_of_nat rnd"

text \<open>
  The order document of the succeeded branch.  \<open>rnd\<close> is the value of
  \<^verbatim>\<open>Math.floor(Math.random() * 1000000)\<close> drawn by this request.
\<close>

text \<open>
  The paths of \<^verbatim>\<open>billingDetails.address\<close> in the Order schema.  Mongoose drops every other
  key of the object it is given.
\<close>

definition address_paths :: "string list" where
  "address_paths = [''line1'', ''line2'', ''city'', ''state'', ''postal_code'', ''country'']"

definition new_order :: "user_doc \<Rightarrow> payment \<Rightarrow> payment_intent \<Rightarrow> nat \<Rightarrow> date \<Rightarrow> oid \<Rightarrow> order" where
  "new_order user p paymentIntent rnd now i =
     \<lparr>o_id = i, orderNumber = generateOrderNumber rnd, o_user = u_id user,
      o_business = p_business p, o_payment = p_id p,
      items = [\<lparr>i_name = ''Business Listing Fee'',
                i_description = ''One-time payment to publish your business on our platform'',
                i_amount = 9900, i_quantity = 1\<rparr>],
      subtotal = 9900, taxes = 0, total = 9900, o_currency = ''usd'',
      o_status = ''completed'',
      billingDetails =
        \<lparr>bd_name = js_or (billing_name paymentIntent) (firstName user @ '' '' @ lastName user),
         bd_email = email user,
         bd_address = filter (\<lambda>kv. fst kv \<in> set address_paths)
                        (js_or_obj (billing_address paymentIntent) [])\<rparr>,
      completedAt = Some now\<rparr>"

text \<open>The end of the handler: \<^verbatim>\<open>await payment.save()\<close>, then the JSON response.\<close>

definition confirm_save :: "faults \<Rightarrow> payment \<Rightarrow> payment_intent \<Rightarrow> state \<Rightarrow> response \<times> state" where
  "confirm_save F p paymentIntent s =
     (case payment_save F p s of
        None \<Rightarrow> (ServerError ''Server error'', s)
      | Some s' \<Rightarrow>
          (PaymentConfirmed (view_of p)
             (if pi_status paymentIntent = ''succeeded'' then ''Payment successful''
              else ''Payment status updated''), s'))"

text \<open>
  \<^verbatim>\<open>metadata\<close> is a path of type Mixed.  Mongoose does not see an assignment inside such a
  value; only \<^verbatim>\<open>markModified\<close> or an assignment to the path itself makes \<^verbatim>\<open>save()\<close> write
  it, and the handlers do neither.  So of a document changed in memory, \<^verbatim>\<open>save()\<close> writes
  every tracked path and leaves \<^verbatim>\<open>metadata\<close> as it was loaded.
\<close>

definition persisted :: "payment \<Rightarrow> payment \<Rightarrow> payment" where
  "persisted loaded in_memory = in_memory\<lparr>metadata := metadata loaded\<rparr>"

text \<open>
  The branch for \<^verbatim>\<open>paymentIntent.status === "succeeded"\<close>.  The payment was loaded with
  \<^verbatim>\<open>populate("business")\<close>: when the business document is gone, \<^verbatim>\<open>payment.business\<close> is null
  and reading its \<^verbatim>\<open>_id\<close> throws.
\<close>

definition confirm_succeeded ::
    "faults \<Rightarrow> user_doc \<Rightarrow> payment \<Rightarrow> payment_intent \<Rightarrow> nat \<Rightarrow> date \<Rightarrow> state \<Rightarrow> response \<times> state" where
  "confirm_succeeded F user p paymentIntent rnd now s =
     (case find (\<lambda>b. b_id b = p_business p) (businesses s) of
        None \<Rightarrow> (ServerError ''Server error'', s)
      | Some b \<Rightarrow>
          (case Business_findByIdAndUpdate F (b_id b)
                  (\<lambda>b. b\<lparr>paymentStatus := ''paid'', paymentId := Some (p_id p)\<rparr>) s of
             None \<Rightarrow> (ServerError ''Server error'', s)
           | Some s1 \<Rightarrow>
               (case Order_create F (new_order user p paymentIntent rnd now) s1 of
                  None \<Rightarrow> (ServerError ''Server error'', s1)
                | Some (ord, s2) \<Rightarrow>
                    confirm_save F
                      (persisted p
                         (p\<lparr>metadata := set_field ''orderId'' (MId (o_id ord)) (metadata p)\<rparr>))
                      paymentIntent s2)))"

text \<open>What the handler does with the payment document it found.\<close>

definition confirm_update ::
    "faults \<Rightarrow> user_doc \<Rightarrow> payment \<Rightarrow> payment_intent \<Rightarrow> nat \<Rightarrow> date \<Rightarrow> state \<Rightarrow> response \<times> state" where
  "confirm_update F user p0 paymentIntent rnd now s =
     (if pi_status paymentIntent = ''succeeded''
      then confirm_succeeded F user (p0\<lparr>status := pi_status paymentIntent\<rparr>) paymentIntent rnd now s
      else if pi_status paymentIntent = ''payment_failed''
      then confirm_save F
             (p0\<lparr>status := pi_status paymentIntent,
                 failureReason := Some (js_or (last_payment_error paymentIntent) ''Payment failed'')\<rparr>)
             paymentIntent s
      else confirm_save F (p0\<lparr>status := pi_status paymentIntent\<rparr>) paymentIntent s)"

definition confirm ::
    "faults \<Rightarrow> gateway \<Rightarrow> user_doc \<Rightarrow> string \<Rightarrow> nat \<Rightarrow> date \<Rightarrow> state \<Rightarrow> response \<times> state" where
  "confirm F gw user paymentIntentId rnd now s =
     (if userType user \<noteq> ''Business'' then (Forbidden, s)
      else if paymentIntentId = [] then (ValidationFailed, s)
      else (case paymentIntents_retrieve gw paymentIntentId of
          None \<Rightarrow>
            (ServerError ''Server error'', gateway_call (PaymentIntentsRetrieve paymentIntentId) s)
        | Some paymentIntent \<Rightarrow>
            (if PaymentFind \<in> F
             then (ServerError ''Server error'',
                   gateway_call (PaymentIntentsRetrieve paymentIntentId) s)
             else (case find (\<lambda>p. stripePaymentIntentId p = paymentIntentId \<and> p_user p = u_id user)
                          (payments s) of
                 None \<Rightarrow>
                   (NotFound ''Payment not found'',
                    gateway_call (PaymentIntentsRetrieve paymentIntentId) s)
               | Some p0 \<Rightarrow>
                   confirm_update F user p0 paymentIntent rnd now
                     (gateway_call (PaymentIntentsRetrieve paymentIntentId) s)))))"

section \<open>GET /api/payments/:paymentId/status\<close>

text \<open>
  The inner \<^verbatim>\<open>try\<close> holds both the gateway call and the save: a throw of either is
  logged and the handler goes on with the document it has in memory.
\<close>

definition refresh_status :: "faults \<Rightarrow> gateway \<Rightarrow> payment \<Rightarrow> state \<Rightarrow> payment \<times> state" where
  "refresh_status F gw p s =
     (let s0 = gateway_call (PaymentIntentsRetrieve (stripePaymentIntentId p)) s in
      case paymentIntents_retrieve gw (stripePaymentIntentId p) of
        None \<Rightarrow> (p, s0)
      | Some paymentIntent \<Rightarrow>
          if status p \<noteq> pi_status paymentIntent
          then (case payment_save F (p\<lparr>status := pi_status paymentIntent\<rparr>) s0 of
                  None \<Rightarrow> (p\<lparr>status := pi_status paymentIntent\<rparr>, s0)
                | Some s1 \<Rightarrow> (p\<lparr>status := pi_status paymentIntent\<rparr>, s1))
          else (p, s0))"

definition getStatus ::
    "faults \<Rightarrow> gateway \<Rightarrow> user_doc \<Rightarrow> oid \<Rightarrow> state \<Rightarrow> response \<times> state" where
  "getStatus F gw user pid s =
     (if PaymentFind \<in> F then (ServerError ''Server error'', s)
      else (case find (\<lambda>p. p_id p = pid \<and> p_user p = u_id user) (payments s) of
          None \<Rightarrow> (NotFound ''Payment not found'', s)
        | Some p \<Rightarrow>
            (PaymentStatus (view_of (fst (refresh_status F gw p s))),
             snd (refresh_status F gw p s))))"

section \<open>POST /api/payments/webhook\<close>

text \<open>
  How a block of statements ends.  Each helper below is a \<^verbatim>\<open>try\<close> block with its
  \<^verbatim>\<open>catch\<close>: the \<open>_try\<close> function is the body, which stops at the first call that
  throws and keeps the writes made so far; the helper itself is the body followed by the
  \<^verbatim>\<open>catch\<close>, which prints the error and returns.
\<close>

datatype completion = Normal | Thrown

fun catch_and_log :: "completion \<times> state \<Rightarrow> completion \<times> state" where
  "catch_and_log (c, s) = (Normal, s)"

definition handlePaymentSucceeded_try ::
    "faults \<Rightarrow> payment_intent \<Rightarrow> state \<Rightarrow> completion \<times> state" where
  "handlePaymentSucceeded_try F paymentIntent s =
     (if PaymentFind \<in> F then (Thrown, s)
      else (case find (\<lambda>p. stripePaymentIntentId p = pi_id paymentIntent) (payments s) of
          None \<Rightarrow> (Normal, s)
        | Some p \<Rightarrow>
            (case payment_save F (p\<lparr>status := ''succeeded''\<rparr>) s of
               None \<Rightarrow> (Thrown, s)
             | Some s1 \<Rightarrow>
                 (case Business_findByIdAndUpdate F (p_business p)
                         (\<lambda>b. b\<lparr>paymentStatus := ''paid''\<rparr>) s1 of
                    None \<Rightarrow> (Thrown, s1)
                  | Some s2 \<Rightarrow>
                      (case SystemLog_create F
                              \<lparr>logType = ''admin_action'', l_user = Some (p_user p),
                               l_business = Some (p_business p),
                               l_description = ''Payment succeeded via webhook'',
                               l_details = [(''paymentIntentId'', MStr (pi_id paymentIntent)),
                                            (''amount'', MNum (pi_amount paymentIntent))]\<rparr> s2 of
                         None \<Rightarrow> (Thrown, s2)
                       | Some s3 \<Rightarrow> (Normal, s3))))))"

definition handlePaymentSucceeded ::
    "faults \<Rightarrow> payment_intent \<Rightarrow> state \<Rightarrow> completion \<times> state" where
  "handlePaymentSucceeded F paymentIntent s =
     catch_and_log (handlePaymentSucceeded_try F paymentIntent s)"

definition handlePaymentFailed_try ::
    "faults \<Rightarrow> payment_intent \<Rightarrow> state \<Rightarrow> completion \<times> state" where
  "handlePaymentFailed_try F paymentIntent s =
     (if PaymentFind \<in> F then (Thrown, s)
      else (case find (\<lambda>p. stripePaymentIntentId p = pi_id paymentIntent) (payments s) of
          None \<Rightarrow> (Normal, s)
        | Some p \<Rightarrow>
            (case payment_save F
                    (p\<lparr>status := ''failed'',
                       failureReason :=
                         Some (js_or (last_payment_error paymentIntent) ''Payment failed'')\<rparr>) s of
               None \<Rightarrow> (Thrown, s)
             | Some s1 \<Rightarrow>
                 (case Business_findByIdAndUpdate F (p_business p)
                         (\<lambda>b. b\<lparr>paymentStatus := ''failed''\<rparr>) s1 of
                    None \<Rightarrow> (Thrown, s1)
                  | Some s2 \<Rightarrow> (Normal, s2)))))"

definition handlePaymentFailed ::
    "faults \<Rightarrow> payment_intent \<Rightarrow> state \<Rightarrow> completion \<times> state" where
  "handlePaymentFailed F paymentIntent s =
     catch_and_log (handlePaymentFailed_try F paymentIntent s)"

definition handlePaymentCanceled_try ::
    "faults \<Rightarrow> payment_intent \<Rightarrow> state \<Rightarrow> completion \<times> state" where
  "handlePaymentCanceled_try F paymentIntent s =
     (if PaymentFind \<in> F then (Thrown, s)
      else (case find (\<lambda>p. stripePaymentIntentId p = pi_id paymentIntent) (payments s) of
          None \<Rightarrow> (Normal, s)
        | Some p \<Rightarrow>
            (case payment_save F (p\<lparr>status := ''canceled''\<rparr>) s of
               None \<Rightarrow> (Thrown, s)
             | Some s1 \<Rightarrow>
                 (case Business_findByIdAndUpdate F (p_business p)
                         (\<lambda>b. b\<lparr>paymentStatus := ''pending''\<rparr>) s1 of
                    None \<Rightarrow> (Thrown, s1)
                  | Some s2 \<Rightarrow> (Normal, s2)))))"

definition handlePaymentCanceled ::
    "faults \<Rightarrow> payment_intent \<Rightarrow> state \<Rightarrow> completion \<times> state" where
  "handlePaymentCanceled F paymentIntent s =
     catch_and_log (handlePaymentCanceled_try F paymentIntent s)"

text \<open>The \<^verbatim>\<open>switch\<close> on the event type, inside the route's own \<^verbatim>\<open>try\<close>.\<close>

definition webhook_dispatch :: "faults \<Rightarrow> event \<Rightarrow> state \<Rightarrow> completion \<times> state" where
  "webhook_dispatch F ev s =
     (if ev_type ev = ''payment_intent.succeeded'' then handlePaymentSucceeded F (ev_object ev) s
      else if ev_type ev = ''payment_intent.payment_failed'' then handlePaymentFailed F (ev_object ev) s
      else if ev_type ev = ''payment_intent.canceled'' then handlePaymentCanceled F (ev_object ev) s
      else (Normal, s))"

text \<open>
  The route handler.  \<open>verified\<close> is the result of \<^verbatim>\<open>stripe.webhooks.constructEvent\<close>:
  the event, or \<open>None\<close> when the signature check throws.  What the handler is given by
  the application is \<open>webhook_request\<close> below.
\<close>

definition webhook :: "faults \<Rightarrow> event option \<Rightarrow> state \<Rightarrow> response \<times> state" where
  "webhook F verified s =
     (case verified of
        None \<Rightarrow> (WebhookError, s)
      | Some ev \<Rightarrow>
          (case webhook_dispatch F ev s of
             (Normal, s') \<Rightarrow> (Received, s')
           | (Thrown, s') \<Rightarrow> (WebhookHandlerFailed, s')))"

subsection \<open>The route as the application mounts it\<close>

text \<open>
  \<^verbatim>\<open>app.js\<close> installs \<^verbatim>\<open>express.json()\<close> for every path before it mounts the payments
  router.  A request that reaches the route has therefore been through it: \<^verbatim>\<open>req.body\<close> is
  the parsed object (the empty object when the content type is not JSON), no longer the
  bytes that were sent.  The route's own \<^verbatim>\<open>express.raw\<close> reads the bytes only when no
  parser has run before it, and \<^verbatim>\<open>constructEvent\<close> computes the signature over a string
  or a buffer: given an object it throws.  \<open>verify\<close> stands for the signature check of
  the gateway's library on the bytes and the \<^verbatim>\<open>stripe-signature\<close> header, \<open>None\<close> when it
  throws.  (A body that \<^verbatim>\<open>express.json()\<close> cannot parse never reaches the route.)
\<close>

datatype req_body = RawBytes string | ParsedObject

definition express_json :: "req_body \<Rightarrow> req_body" where
  "express_json b = ParsedObject"

fun express_raw :: "req_body \<Rightarrow> req_body" where
  "express_raw (RawBytes raw) = RawBytes raw"
| "express_raw ParsedObject = ParsedObject"

fun constructEvent :: "(string \<Rightarrow> string \<Rightarrow> event option) \<Rightarrow> req_body \<Rightarrow> string \<Rightarrow> event option" where
  "constructEvent verify (RawBytes raw) sig = verify raw sig"
| "constructEvent verify ParsedObject sig = None"

definition webhook_request ::
    "faults \<Rightarrow> (string \<Rightarrow> string \<Rightarrow> event option) \<Rightarrow> string \<Rightarrow> string \<Rightarrow> state
      \<Rightarrow> response \<times> state" where
  "webhook_request F verify raw sig s =
     webhook F (constructEvent verify (express_raw (express_json (RawBytes raw))) sig) s"

section \<open>PUT /api/admin/businesses/:id/approve and /reject\<close>

text \<open>
  After the business is saved the handlers write a notification for the owner and a log
  entry.  The business is loaded with \<^verbatim>\<open>populate("owner")\<close>; the owner's user document
  is taken to exist, so that \<^verbatim>\<open>business.owner._id\<close> is the stored owner id.  The
  notification is validated before it is written: the rejection message holds the
  administrator's reason, and a reason that makes it longer than 500 characters makes
  \<^verbatim>\<open>Notification.create\<close> throw after the business has been saved.  Two writes that touch
  neither a business nor a payment are left out: \<^verbatim>\<open>NotificationService.notifyNewBusiness\<close>,
  which catches its own errors and writes notifications for other users, and the post-save
  hook of the Notification schema, which writes one more log entry without being awaited.
\<close>

definition admin_notify_and_log ::
    "faults \<Rightarrow> user_doc \<Rightarrow> business \<Rightarrow> string \<Rightarrow> string \<Rightarrow> string
      \<Rightarrow> (string \<times> mixed) list \<Rightarrow> response \<Rightarrow> state \<Rightarrow> response \<times> state" where
  "admin_notify_and_log F admin b ttl msg act det ok s =
     (case Notification_create F
             \<lparr>recipient = b_owner b, n_type = ''system_alert'', title = ttl, message = msg\<rparr> s of
        None \<Rightarrow> (ServerError ''Server error'', s)
      | Some s1 \<Rightarrow>
          (case SystemLog_create F
                  \<lparr>logType = ''admin_action'', l_user = Some (u_id admin),
                   l_business = Some (b_id b), l_description = act @ b_name b,
                   l_details = det\<rparr> s1 of
             None \<Rightarrow> (ServerError ''Server error'', s1)
           | Some s2 \<Rightarrow> (ok, s2)))"

definition approve :: "faults \<Rightarrow> user_doc \<Rightarrow> oid \<Rightarrow> date \<Rightarrow> state \<Rightarrow> response \<times> state" where
  \<open>approve F admin bid now s =
     (if userType admin \<noteq> ''Admin'' then (Forbidden, s)
      else if BusinessFind \<in> F then (ServerError ''Server error'', s)
      else (case find (\<lambda>b. b_id b = bid) (businesses s) of
          None \<Rightarrow> (NotFound ''Business not found'', s)
        | Some b \<Rightarrow>
            (if paymentStatus b \<noteq> ''paid'' then (BadRequest ''Business payment not completed'', s)
             else (case business_save F
                          (b\<lparr>isApproved := True, approvedAt := Some now,
                             rejectedAt := None, rejectionReason := None\<rparr>) s of
                 None \<Rightarrow> (ServerError ''Server error'', s)
               | Some s1 \<Rightarrow>
                   admin_notify_and_log F admin b ''Business Approved''
                     (''Congratulations! Your business "'' @ b_name b
                        @ ''" has been approved and is now live on our platform.'')
                     ''Approved business ''
                     [(''action'', MStr ''approve_business''), (''businessId'', MId (b_id b))]
                     (BusinessApproved
                        (b\<lparr>isApproved := True, approvedAt := Some now,
                           rejectedAt := None, rejectionReason := None\<rparr>)) s1))))\<close>

definition reject :: "faults \<Rightarrow> user_doc \<Rightarrow> oid \<Rightarrow> string \<Rightarrow> date \<Rightarrow> state \<Rightarrow> response \<times> state" where
  \<open>reject F admin bid reason now s =
     (if userType admin \<noteq> ''Admin'' then (Forbidden, s)
      else if reason = [] then (ValidationFailed, s)
      else if BusinessFind \<in> F then (ServerError ''Server error'', s)
      else (case find (\<lambda>b. b_id b = bid) (businesses s) of
          None \<Rightarrow> (NotFound ''Business not found'', s)
        | Some b \<Rightarrow>
            (case business_save F
                    (b\<lparr>isApproved := False, rejectedAt := Some now,
                       rejectionReason := Some reason\<rparr>) s of
               None \<Rightarrow> (ServerError ''Server error'', s)
             | Some s1 \<Rightarrow>
                 admin_notify_and_log F admin b ''Business Application Rejected''
                   (''Your business application for "'' @ b_name b
                      @ ''" has been rejected. Reason: '' @ reason)
                   ''Rejected business ''
                   [(''action'', MStr ''reject_business''), (''businessId'', MId (b_id b)),
                    (''reason'', MStr reason)]
                   (BusinessRejected
                      (b\<lparr>isApproved := False, rejectedAt := Some now,
                         rejectionReason := Some reason\<rparr>)) s1)))\<close>

section \<open>Interleavings\<close>

text \<open>
  One request is one step.  A run is any list of requests, served one after the other on
  the state the earlier ones left.  A webhook request is the bytes of its body and its
  signature header, together with the signature check of the gateway's library.
\<close>

datatype operation =
    CreateIntent gateway user_doc "oid option"
  | Confirm gateway user_doc string nat date
  | GetStatus gateway user_doc oid
  | Webhook "string \<Rightarrow> string \<Rightarrow> event option" string string
  | Approve user_doc oid date
  | Reject user_doc oid string date

fun step :: "faults \<Rightarrow> operation \<Rightarrow> state \<Rightarrow> state" where
  "step F (CreateIntent gw u b) s = snd (create_intent F gw u b s)"
| "step F (Confirm gw u i rnd now) s = snd (confirm F gw u i rnd now s)"
| "step F (GetStatus gw u i) s = snd (getStatus F gw u i s)"
| "step F (Webhook verify raw sig) s = snd (webhook_request F verify raw sig s)"
| "step F (Approve u b now) s = snd (approve F u b now s)"
| "step F (Reject u b r now) s = snd (reject F u b r now s)"

fun run :: "faults \<Rightarrow> operation list \<Rightarrow> state \<Rightarrow> state" where
  "run F [] s = s"
| "run F (x # xs) s = run F xs (step F x s)"

section \<open>Reading the ledger\<close>

text \<open>The stored fields of the document with a given _id, \<open>None\<close> when there is none.\<close>

definition stored_payment :: "state \<Rightarrow> oid \<Rightarrow> payment option" where
  "stored_payment s i = find (\<lambda>p. p_id p = i) (payments s)"

definition stored_status :: "state \<Rightarrow> oid \<Rightarrow> string option" where
  "stored_status s i = map_option status (stored_payment s i)"

definition stored_business :: "state \<Rightarrow> oid \<Rightarrow> business option" where
  "stored_business s i = find (\<lambda>b. b_id b = i) (businesses s)"

definition approval_view :: "business \<Rightarrow> bool \<times> string" where
  "approval_view b = (isApproved b, paymentStatus b)"


text \<open>
  What MongoDB guarantees of the payments collection: _id is unique, and so is
  \<^verbatim>\<open>stripePaymentIntentId\<close> (the schema's unique index).
\<close>

definition unique_payments :: "state \<Rightarrow> bool" where
  "unique_payments s =
     (distinct (map p_id (payments s)) \<and> distinct (map stripePaymentIntentId (payments s)))"

section \<open>One observation on two channels\<close>

text \<open>
  The gateway reports the state of an intent twice: in the answer to the retrieve call of
  the confirm endpoint, and in a webhook event.  It names the event after the status the
  intent moved to (\<^verbatim>\<open>payment_intent.succeeded\<close>, \<^verbatim>\<open>payment_intent.canceled\<close>,
  \<^verbatim>\<open>payment_intent.processing\<close>), and a failed attempt is
  \<^verbatim>\<open>payment_intent.payment_failed\<close>.
\<close>

definition event_type_of :: "string \<Rightarrow> string" where
  "event_type_of st =
     (if st = ''failed'' then ''payment_intent.payment_failed'' else ''payment_intent.'' @ st)"

datatype channel = ViaConfirm | ViaWebhook

text \<open>
  A delivery is the channel together with what the request brings besides the
  observation: the caller, the random draw of the order number and the clock.  On the
  webhook channel a delivery is the route handler applied to the event, that is, a delivery
  whose signature check has passed.  (Behind the application's middleware none passes and
  a webhook request changes nothing, see \<open>webhook_request\<close>; delivering it twice is then
  the same as delivering it once or not at all.)
\<close>

record delivery =
  d_channel :: channel
  d_user :: user_doc
  d_rnd :: nat
  d_now :: date

definition retrieve_returns :: "payment_intent \<Rightarrow> gateway" where
  "retrieve_returns pi =
     \<lparr>customers_list = (\<lambda>e. None), customers_create = (\<lambda>e n. None),
      paymentIntents_create = (\<lambda>a c k d. None),
      paymentIntents_retrieve = (\<lambda>i. Some pi)\<rparr>"

fun observe_on :: "channel \<Rightarrow> delivery \<Rightarrow> payment_intent \<Rightarrow> state \<Rightarrow> state" where
  "observe_on ViaConfirm d pi s =
     snd (confirm {} (retrieve_returns pi) (d_user d) (pi_id pi) (d_rnd d) (d_now d) s)"
| "observe_on ViaWebhook d pi s =
     snd (webhook {} (Some \<lparr>ev_type = event_type_of (pi_status pi), ev_object = pi\<rparr>) s)"

declare observe_on.simps [simp del]

definition observe :: "delivery \<Rightarrow> payment_intent \<Rightarrow> state \<Rightarrow> state" where
  "observe d pi s = observe_on (d_channel d) d pi s"

text \<open>
  The three webhook helpers differ only in the values they assign.  For the proofs about
  repeated deliveries their assignments are collected into one function of the observed
  status: the payment document the helper saves, and the update it makes to the business.
  Lemma \<open>webhook_handled\<close> below shows that the route writes exactly these.
\<close>

definition webhook_handles :: "string \<Rightarrow> bool" where
  "webhook_handles st =
     (st = ''succeeded'' \<or> st = ''failed'' \<or> st = ''payment_failed'' \<or> st = ''canceled'')"

definition webhook_doc :: "payment_intent \<Rightarrow> payment \<Rightarrow> payment" where
  "webhook_doc pi p =
     (if pi_status pi = ''succeeded'' then p\<lparr>status := ''succeeded''\<rparr>
      else if pi_status pi = ''canceled'' then p\<lparr>status := ''canceled''\<rparr>
      else p\<lparr>status := ''failed'',
             failureReason := Some (js_or (last_payment_error pi) ''Payment failed'')\<rparr>)"

definition webhook_business :: "payment_intent \<Rightarrow> business \<Rightarrow> business" where
  "webhook_business pi b =
     (if pi_status pi = ''succeeded'' then b\<lparr>paymentStatus := ''paid''\<rparr>
      else if pi_status pi = ''canceled'' then b\<lparr>paymentStatus := ''pending''\<rparr>
      else b\<lparr>paymentStatus := ''failed''\<rparr>)"

section \<open>Sample data\<close>

text \<open>
  A business owner, an administrator, a business as \<^verbatim>\<open>Business.create\<close> leaves it (the
  schema defaults), and the payment records that two create-intent calls for it write.
\<close>

definition alice :: user_doc where
  "alice = \<lparr>u_id = 1, userType = ''Business'', firstName = ''Alice'', lastName = ''Doe'',
     email = ''alice@example.com''\<rparr>"

definition root_admin :: user_doc where
  "root_admin = \<lparr>u_id = 2, userType = ''Admin'', firstName = ''Admin'', lastName = ''User'',
     email = ''admin@example.com''\<rparr>"

definition shop :: business where
  "shop = \<lparr>b_id = 10, b_owner = 1, b_name = ''Shop'', isApproved = False, isActive = True,
     paymentStatus = ''pending'', b_status = ''draft'', paymentId = None, approvedAt = None,
     rejectedAt = None, rejectionReason = None\<rparr>"

definition pay :: "oid \<Rightarrow> string \<Rightarrow> string \<Rightarrow> payment" where
  "pay i intent_id st = \<lparr>p_id = i, p_user = 1, p_business = 10,
     stripePaymentIntentId = intent_id, stripeCustomerId = ''cus_1'', amount = 9900,
     currency = ''usd'', status = st, description = ''Business listing fee for Shop'',
     metadata = [(''businessName'', MStr ''Shop'')], failureReason = None\<rparr>"

definition db :: "business list \<Rightarrow> payment list \<Rightarrow> state" where
  "db bs ps = \<lparr>businesses = bs, payments = ps, orders = [], systemLogs = [],
     notifications = [], gatewayCalls = []\<rparr>"

definition intent :: "string \<Rightarrow> string \<Rightarrow> string option \<Rightarrow> payment_intent" where
  "intent i st err = \<lparr>pi_id = i, pi_status = st, pi_amount = 9900,
     client_secret = i @ ''_secret'', last_payment_error = err, billing_name = None,
     billing_address = None\<rparr>"

text \<open>A gateway that knows one customer and answers every intent call with \<open>pi\<close>.\<close>

definition stripe_with :: "payment_intent \<Rightarrow> gateway" where
  "stripe_with pi = \<lparr>customers_list = (\<lambda>e. Some [\<lparr>c_id = ''cus_1''\<rparr>]),
     customers_create = (\<lambda>e n. Some \<lparr>c_id = ''cus_1''\<rparr>),
     paymentIntents_create = (\<lambda>a c k d. Some pi),
     paymentIntents_retrieve = (\<lambda>i. Some pi)\<rparr>"

definition stripe_event :: "string \<Rightarrow> payment_intent \<Rightarrow> event option" where
  "stripe_event t pi = Some \<lparr>ev_type = t, ev_object = pi\<rparr>"

section \<open>Basic facts\<close>

lemmas sample_defs = alice_def root_admin_def stripe_with_def stripe_event_def intent_def
  db_def pay_def shop_def

lemmas db_defs = gateway_call_def Business_findByIdAndUpdate_def Order_create_def
  payment_save_def Payment_create_def business_save_def SystemLog_create_def
  Notification_create_def notification_valid_def payment_status_enum_def fresh_oid_def

lemmas confirm_defs = confirm_def confirm_update_def confirm_succeeded_def confirm_save_def
  persisted_def new_order_def address_paths_def view_of_def generateOrderNumber_def

lemmas create_defs = create_intent_def create_and_record_def find_or_create_customer_def
  new_payment_def

lemmas admin_defs = approve_def reject_def admin_notify_and_log_def

lemmas webhook_defs = webhook_def webhook_dispatch_def handlePaymentSucceeded_def
  handlePaymentFailed_def handlePaymentCanceled_def

text \<open>
  Behind \<^verbatim>\<open>express.json()\<close> the signature check is never reached with the bytes: the
  webhook route answers 400 and writes nothing.
\<close>

lemma constructEvent_behind_json [simp]:
  "constructEvent verify (express_raw (express_json b)) sig = None"
  by (simp add: express_json_def)

lemma webhook_request_eq [simp]: "webhook_request F verify raw sig s = (WebhookError, s)"
  by (simp add: webhook_request_def webhook_def)

lemma persisted_own_metadata [simp]: "persisted p (p\<lparr>metadata := m\<rparr>) = p"
  by (simp add: persisted_def)

lemma catch_and_log_eq: "catch_and_log x = (Normal, snd x)"
  by (cases x) simp

lemma find_updateOne_same:
  assumes "\<And>x. key x = j \<Longrightarrow> key (f x) = j"
  shows "find (\<lambda>x. key x = j) (updateOne (\<lambda>x. key x = j) f xs)
         = map_option f (find (\<lambda>x. key x = j) xs)"
  using assms by (induction xs) auto

lemma find_updateOne_other:
  assumes "\<And>x. key x = j \<Longrightarrow> key (f x) = j" and "i \<noteq> j"
  shows "find (\<lambda>x. key x = i) (updateOne (\<lambda>x. key x = j) f xs) = find (\<lambda>x. key x = i) xs"
  using assms by (induction xs) auto

lemma length_updateOne [simp]: "length (updateOne q f xs) = length xs"
  by (induction xs) auto

lemma payments_gateway_call [simp]: "payments (gateway_call c s) = payments s"
  by (simp add: gateway_call_def)

lemma payment_save_Some_iff:
  "(payment_save F p s = Some s') =
     (PaymentSave \<notin> F \<and> status p \<in> set payment_status_enum
      \<and> s' = s\<lparr>payments := updateOne (\<lambda>q. p_id q = p_id p) (\<lambda>q. p) (payments s)\<rparr>)"
  by (auto simp: payment_save_def)

lemma Business_update_Some_iff:
  "(Business_findByIdAndUpdate F j f s = Some s') =
     (BusinessUpdate \<notin> F \<and> s' = s\<lparr>businesses := updateOne (\<lambda>b. b_id b = j) f (businesses s)\<rparr>)"
  by (auto simp: Business_findByIdAndUpdate_def)

lemma business_save_Some_iff:
  "(business_save F b s = Some s') =
     (BusinessSave \<notin> F
      \<and> s' = s\<lparr>businesses := updateOne (\<lambda>q. b_id q = b_id b) (\<lambda>q. b) (businesses s)\<rparr>)"
  by (auto simp: business_save_def)

lemma Order_create_Some_iff:
  "(Order_create F mk s = Some (ord, s')) =
     (OrderCreate \<notin> F \<and> ord = mk (fresh_oid (map o_id (orders s)))
      \<and> orderNumber ord \<notin> set (map orderNumber (orders s))
      \<and> s' = s\<lparr>orders := orders s @ [ord]\<rparr>)"
  by (auto simp: Order_create_def Let_def)

lemma Payment_create_Some_iff:
  "(Payment_create F mk s = Some (p, s')) =
     (PaymentCreate \<notin> F \<and> p = mk (fresh_oid (map p_id (payments s)))
      \<and> stripePaymentIntentId p \<notin> set (map stripePaymentIntentId (payments s))
      \<and> status p \<in> set payment_status_enum
      \<and> s' = s\<lparr>payments := payments s @ [p]\<rparr>)"
  by (auto simp: Payment_create_def Let_def)

lemma SystemLog_create_Some_iff:
  "(SystemLog_create F l s = Some s') =
     (SystemLogCreate \<notin> F \<and> s' = s\<lparr>systemLogs := systemLogs s @ [l]\<rparr>)"
  by (auto simp: SystemLog_create_def)

lemma Notification_create_Some_iff:
  "(Notification_create F n s = Some s') =
     (NotificationCreate \<notin> F \<and> notification_valid n
      \<and> s' = s\<lparr>notifications := notifications s @ [n]\<rparr>)"
  by (auto simp: Notification_create_def)

lemma payment_save_None_iff:
  "(payment_save F p s = None) = (PaymentSave \<in> F \<or> status p \<notin> set payment_status_enum)"
  by (auto simp: payment_save_def)

lemma Business_update_None_iff:
  "(Business_findByIdAndUpdate F j f s = None) = (BusinessUpdate \<in> F)"
  by (auto simp: Business_findByIdAndUpdate_def)

lemma business_save_None_iff: "(business_save F b s = None) = (BusinessSave \<in> F)"
  by (auto simp: business_save_def)

lemma Order_create_None_iff:
  "(Order_create F mk s = None) =
     (OrderCreate \<in> F
      \<or> orderNumber (mk (fresh_oid (map o_id (orders s)))) \<in> set (map orderNumber (orders s)))"
  by (auto simp: Order_create_def Let_def)

lemma SystemLog_create_None_iff: "(SystemLog_create F l s = None) = (SystemLogCreate \<in> F)"
  by (auto simp: SystemLog_create_def)

lemma Notification_create_None_iff:
  "(Notification_create F n s = None) = (NotificationCreate \<in> F \<or> \<not> notification_valid n)"
  by (auto simp: Notification_create_def)

lemmas db_iffs = payment_save_Some_iff Business_update_Some_iff business_save_Some_iff
  Order_create_Some_iff Payment_create_Some_iff SystemLog_create_Some_iff
  Notification_create_Some_iff payment_save_None_iff Business_update_None_iff
  business_save_None_iff Order_create_None_iff SystemLog_create_None_iff
  Notification_create_None_iff

lemma succeeded_in_enum [simp]: "''succeeded'' \<in> set payment_status_enum"
  by (simp add: payment_status_enum_def)

lemma stored_status_frame [simp]:
  "stored_status (s\<lparr>businesses := bs\<rparr>) i = stored_status s i"
  "stored_status (s\<lparr>orders := os\<rparr>) i = stored_status s i"
  "stored_status (s\<lparr>systemLogs := ls\<rparr>) i = stored_status s i"
  "stored_status (s\<lparr>notifications := ns\<rparr>) i = stored_status s i"
  "stored_status (s\<lparr>gatewayCalls := cs\<rparr>) i = stored_status s i"
  "stored_status (gateway_call c s) i = stored_status s i"
  by (simp_all add: stored_status_def stored_payment_def gateway_call_def)


text \<open>Writing a document whose status is \<open>st\<close> keeps every stored status that is \<open>st\<close>.\<close>

lemma status_after_write:
  assumes "stored_status s i = Some st" and "status p = st" and "p_id p = k"
  shows "map_option status (find (\<lambda>q. p_id q = i)
           (updateOne (\<lambda>q. p_id q = k) (\<lambda>q. p) (payments s))) = Some st"
proof (cases "i = k")
  case True
  then show ?thesis
    using assms
    by (auto simp: stored_status_def stored_payment_def find_updateOne_same[where key=p_id])
next
  case False
  then show ?thesis
    using assms
    by (simp add: stored_status_def stored_payment_def find_updateOne_other[where key=p_id])
qed

lemma stored_business_frame [simp]:
  "stored_business (s\<lparr>payments := ps\<rparr>) i = stored_business s i"
  "stored_business (s\<lparr>orders := os\<rparr>) i = stored_business s i"
  "stored_business (s\<lparr>systemLogs := ls\<rparr>) i = stored_business s i"
  "stored_business (s\<lparr>notifications := ns\<rparr>) i = stored_business s i"
  "stored_business (s\<lparr>gatewayCalls := cs\<rparr>) i = stored_business s i"
  "stored_business (gateway_call c s) i = stored_business s i"
  by (simp_all add: stored_business_def gateway_call_def)

lemma stored_business_updateOne:
  assumes "\<And>b. b_id b = j \<Longrightarrow> b_id (f b) = j"
  shows "stored_business (s\<lparr>businesses := updateOne (\<lambda>b. b_id b = j) f (businesses s')\<rparr>) i
         = (if i = j then map_option f (stored_business s' i) else stored_business s' i)"
  using assms
  by (simp add: stored_business_def find_updateOne_same[where key=b_id]
      find_updateOne_other[where key=b_id])

lemma stored_business_id: "stored_business s i = Some b \<Longrightarrow> b_id b = i"
  by (auto simp: stored_business_def dest: find_Some_iff[THEN iffD1])

lemma businesses_gateway_call [simp]: "businesses (gateway_call c s) = businesses s"
  by (simp add: gateway_call_def)

lemma updateOne_distinct:
  assumes "distinct (map key xs)"
  shows "updateOne (\<lambda>x. key x = k) f xs = map (\<lambda>x. if key x = k then f x else x) xs"
  using assms
proof (induction xs)
  case Nil
  then show ?case by simp
next
  case (Cons x xs)
  show ?case
  proof (cases "key x = k")
    case True
    from Cons.prems have "key x \<notin> key ` set xs" by simp
    with True have "\<forall>y\<in>set xs. key y \<noteq> k" by blast
    then have "map (\<lambda>x. if key x = k then f x else x) xs = xs"
      by (induction xs) auto
    with True show ?thesis by simp
  next
    case False
    with Cons show ?thesis by simp
  qed
qed

lemma find_map_list: "find P (map g xs) = map_option g (find (\<lambda>x. P (g x)) xs)"
  by (induction xs) auto

lemma find_map_None:
  "(\<And>q. q \<in> set xs \<Longrightarrow> \<not> P (g q)) \<Longrightarrow> find P (map g xs) = None"
  by (induction xs) auto

lemma find_key_and:
  "find (\<lambda>x. key x = i) xs = Some b \<Longrightarrow> Q b \<Longrightarrow> find (\<lambda>x. key x = i \<and> Q x) xs = Some b"
  by (induction xs) (auto split: if_splits)

lemma unique_payment_by_intent:
  assumes "unique_payments s" and "p \<in> set (payments s)" and "q \<in> set (payments s)"
    and "stripePaymentIntentId q = stripePaymentIntentId p"
  shows "q = p"
  using assms by (auto simp: unique_payments_def distinct_map inj_on_def)

lemma unique_payment_by_id:
  assumes "unique_payments s" and "p \<in> set (payments s)" and "q \<in> set (payments s)"
    and "p_id q = p_id p"
  shows "q = p"
  using assms by (auto simp: unique_payments_def distinct_map inj_on_def)

lemma map_key_after:
  "(\<And>q. q \<in> set xs \<Longrightarrow> key (g q) = key q) \<Longrightarrow> map key (map g xs) = map key xs"
  by (induction xs) auto

section \<open>Creating an intent for a business that has paid\<close>

text \<open>
  Claim C8.  When the caller is a business user who owns the business and a payment record
  of that business has status succeeded, create-intent answers 200 with code
  BUSINESS_ALREADY_PAID and leaves the whole state as it was: no gateway call is made (no
  customer looked up or created, no intent created) and no payment record is written.
\<close>

theorem create_intent_already_paid:
  assumes "userType user = ''Business''"
    and "BusinessFind \<notin> F" and "PaymentFind \<notin> F"
    and "b \<in> set (businesses s)" and "b_id b = bid" and "b_owner b = u_id user"
    and "p \<in> set (payments s)" and "p_business p = bid" and "status p = ''succeeded''"
  shows "create_intent F gw user (Some bid) s = (AlreadyPaid, s)
         \<and> response_code (fst (create_intent F gw user (Some bid) s)) = Some ''BUSINESS_ALREADY_PAID''
         \<and> http_status (fst (create_intent F gw user (Some bid) s)) = 200
         \<and> gatewayCalls (snd (create_intent F gw user (Some bid) s)) = gatewayCalls s
         \<and> payments (snd (create_intent F gw user (Some bid) s)) = payments s"
proof -
  have "find (\<lambda>b. b_id b = bid \<and> b_owner b = u_id user) (businesses s) \<noteq> None"
    using assms(4-6) by (auto simp: find_None_iff)
  moreover have "find (\<lambda>p. p_business p = bid \<and> status p = ''succeeded'') (payments s) \<noteq> None"
    using assms(7-9) by (auto simp: find_None_iff)
  ultimately have "create_intent F gw user (Some bid) s = (AlreadyPaid, s)"
    using assms(1-3) by (auto simp: create_intent_def)
  then show ?thesis by simp
qed

theorem create_intent_already_paid_witness:
  "create_intent {} (stripe_with (intent ''pi_2'' ''requires_payment_method'' None)) alice (Some 10)
     (db [shop\<lparr>paymentStatus := ''paid''\<rparr>] [pay 100 ''pi_1'' ''succeeded''])
   = (AlreadyPaid, db [shop\<lparr>paymentStatus := ''paid''\<rparr>] [pay 100 ''pi_1'' ''succeeded''])"
  using create_intent_already_paid [of alice "{}" "shop\<lparr>paymentStatus := ''paid''\<rparr>"
      "db [shop\<lparr>paymentStatus := ''paid''\<rparr>] [pay 100 ''pi_1'' ''succeeded'']" 10
      "pay 100 ''pi_1'' ''succeeded''" "stripe_with (intent ''pi_2'' ''requires_payment_method'' None)"]
  by (simp add: sample_defs)

section \<open>What the webhook route answers\<close>


text \<open>
  This rests on the order of the middleware alone.  The route handler by itself, given an
  event that passed the signature check, would not answer 5xx either: each helper catches
  its own errors, so the handler's \<^verbatim>\<open>catch\<close> with the answer 500 is never entered and the
  answer is \<^verbatim>\<open>{received: true}\<close>, whichever database calls throw.
\<close>

lemma webhook_handler_received:
  "fst (webhook F (Some ev) s) = Received \<and> http_status (fst (webhook F (Some ev) s)) = 200"
  by (simp add: webhook_defs catch_and_log_eq)

lemma webhook_handler_save_throws:
  "webhook {PaymentSave}
     (stripe_event ''payment_intent.succeeded'' (intent ''pi_1'' ''succeeded'' None))
     (db [shop] [pay 100 ''pi_1'' ''pending''])
   = (Received, db [shop] [pay 100 ''pi_1'' ''pending''])"
  by (simp add: webhook_defs handlePaymentSucceeded_try_def sample_defs db_defs)

section \<open>Rejecting a business\<close>

text \<open>
  Claim C10 says that reject clears the approval timestamp of an earlier approval.  It does
  not: a paid business approved at time 60 and rejected at time 70 still carries
  \<open>approvedAt = 60\<close>.
\<close>

theorem reject_keeps_approvedAt_counterexample:
  "map approvedAt
     (businesses (run {} [Approve root_admin 10 60, Reject root_admin 10 ''incomplete profile'' 70]
        (db [shop\<lparr>paymentStatus := ''paid''\<rparr>] [])))
   = [Some 60]"
  by (simp add: approve_def reject_def admin_notify_and_log_def sample_defs db_defs)

text \<open>
  Claim C10, amended.  For an administrator, a non-empty reason and a stored business,
  reject stores the business with \<open>isApproved = False\<close>, the rejection timestamp and the
  reason; every other field, \<open>approvedAt\<close> among them, is as it was.
\<close>

theorem reject_effect:
  assumes "userType admin = ''Admin''" and "reason \<noteq> []"
    and "BusinessFind \<notin> F" and "BusinessSave \<notin> F"
    and "stored_business s bid = Some b"
  shows "stored_business (snd (reject F admin bid reason now s)) bid
         = Some (b\<lparr>isApproved := False, rejectedAt := Some now, rejectionReason := Some reason\<rparr>)"
proof -
  have "b_id b = bid"
    using assms(5) unfolding stored_business_def by (auto dest: find_Some_iff[THEN iffD1])
  then show ?thesis
    using assms
    by (auto simp: reject_def admin_notify_and_log_def stored_business_def business_save_def
        Notification_create_def SystemLog_create_def find_updateOne_same[where key=b_id])
qed

theorem reject_effect_witness:
  "stored_business
     (snd (reject {} root_admin 10 ''incomplete profile'' 70
        (db [shop\<lparr>paymentStatus := ''paid'', isApproved := True, approvedAt := Some 60\<rparr>] []))) 10
   = Some (shop\<lparr>paymentStatus := ''paid'', isApproved := False, approvedAt := Some 60,
             rejectedAt := Some 70, rejectionReason := Some ''incomplete profile''\<rparr>)"
  using reject_effect [of root_admin "''incomplete profile''" "{}"
      "db [shop\<lparr>paymentStatus := ''paid'', isApproved := True, approvedAt := Some 60\<rparr>] []" 10
      "shop\<lparr>paymentStatus := ''paid'', isApproved := True, approvedAt := Some 60\<rparr>" 70]
  by (simp add: sample_defs stored_business_def)

section \<open>A succeeded payment reported by the webhook\<close>

text \<open>
  Claim C2 says that the first observation of succeeded creates one order and links it in
  the payment's metadata on either channel.  The webhook helper marks the payment
  succeeded, marks the business paid and writes a log entry, and stops there.  For the
  stored pending payment \<open>pi_1\<close>, the handler given the event
  \<^verbatim>\<open>payment_intent.succeeded\<close> leaves the order collection empty and the metadata
  without an \<open>orderId\<close>.
\<close>

theorem webhook_succeeded_no_order:
  "webhook {} (stripe_event ''payment_intent.succeeded'' (intent ''pi_1'' ''succeeded'' None))
     (db [shop] [pay 100 ''pi_1'' ''pending''])
   = (Received,
      (db [shop\<lparr>paymentStatus := ''paid''\<rparr>] [pay 100 ''pi_1'' ''succeeded''])
        \<lparr>systemLogs := [\<lparr>logType = ''admin_action'', l_user = Some 1, l_business = Some 10,
             l_description = ''Payment succeeded via webhook'',
             l_details = [(''paymentIntentId'', MStr ''pi_1''), (''amount'', MNum 9900)]\<rparr>]\<rparr>)"
  by (simp add: webhook_defs handlePaymentSucceeded_try_def sample_defs db_defs)

text \<open>
  Behind the application's middleware the same delivery does not reach the helper: it is
  answered 400 and nothing is written, so there is no order and no link either.
\<close>

lemma webhook_request_succeeded_no_order:
  "webhook_request {} verify raw sig (db [shop] [pay 100 ''pi_1'' ''pending''])
   = (WebhookError, db [shop] [pay 100 ''pi_1'' ''pending''])"
  by simp

text \<open>
  The same observation on the confirm endpoint: the payment is stored as succeeded, one
  order is created and the business is marked paid with the payment's id.  The order's id
  is assigned to \<^verbatim>\<open>payment.metadata.orderId\<close> in memory only: the stored metadata has no
  \<open>orderId\<close>.
\<close>

lemma confirm_succeeded_one_order:
  "ledger (snd (confirm {} (stripe_with (intent ''pi_1'' ''succeeded'' None)) alice ''pi_1'' 7 50
     (db [shop] [pay 100 ''pi_1'' ''pending''])))
   = ([pay 100 ''pi_1'' ''succeeded''],
      [new_order alice (pay 100 ''pi_1'' ''succeeded'') (intent ''pi_1'' ''succeeded'' None) 7 50 1],
      [shop\<lparr>paymentStatus := ''paid'', paymentId := Some 100\<rparr>])"
  by (simp add: confirm_defs ledger_def sample_defs db_defs Let_def)

section \<open>A failed payment reported to the confirm endpoint\<close>

text \<open>
  Claim C6 says that a transition to failed records the failure reason and marks the
  business failed on either channel.  The webhook helper does.  The confirm endpoint
  stores whatever status the gateway reports and sets a failure reason only for the status
  \<^verbatim>\<open>payment_failed\<close>, which the schema's enum rejects; it never writes the business.
  With the gateway reporting \<open>failed\<close> and the error \<open>card_declined\<close>, the payment is
  stored as failed with no failure reason and the business stays pending; with
  \<^verbatim>\<open>payment_failed\<close> the save throws and the answer is 500.
\<close>

theorem confirm_failed_no_reason:
  "ledger (snd (confirm {} (stripe_with (intent ''pi_1'' ''failed'' (Some ''card_declined'')))
       alice ''pi_1'' 7 50 (db [shop] [pay 100 ''pi_1'' ''pending''])))
   = ([pay 100 ''pi_1'' ''failed''], [], [shop])
   \<and> confirm {} (stripe_with (intent ''pi_1'' ''payment_failed'' (Some ''card_declined'')))
       alice ''pi_1'' 7 50 (db [shop] [pay 100 ''pi_1'' ''pending''])
     = (ServerError ''Server error'',
        (db [shop] [pay 100 ''pi_1'' ''pending''])
          \<lparr>gatewayCalls := [PaymentIntentsRetrieve ''pi_1'']\<rparr>)"
  by (simp add: confirm_defs ledger_def sample_defs db_defs)

text \<open>The webhook helper, for comparison: status, failure reason and business are written.\<close>

lemma webhook_failed_effect:
  assumes "find (\<lambda>p. stripePaymentIntentId p = pi_id pi) (payments s) = Some p"
  shows "snd (webhook {} (Some \<lparr>ev_type = ''payment_intent.payment_failed'', ev_object = pi\<rparr>) s)
    = s\<lparr>payments := updateOne (\<lambda>q. p_id q = p_id p)
           (\<lambda>q. p\<lparr>status := ''failed'',
                   failureReason := Some (js_or (last_payment_error pi) ''Payment failed'')\<rparr>)
           (payments s),
         businesses := updateOne (\<lambda>b. b_id b = p_business p)
           (\<lambda>b. b\<lparr>paymentStatus := ''failed''\<rparr>) (businesses s)\<rparr>"
  using assms by (simp add: webhook_defs handlePaymentFailed_try_def db_defs catch_and_log_eq)

section \<open>Is succeeded terminal?\<close>









section \<open>The approval gate\<close>





lemma businesses_confirm_save: "businesses (snd (confirm_save F p pi s)) = businesses s"
  by (auto simp: confirm_save_def db_iffs split: option.splits)








text \<open>
  The run of the witness: two intents are created for the business, the first is paid and
  confirmed, the administrator approves, and the gateway sends a webhook request for the
  failure of the second intent, correctly signed.  The business ends approved and paid.
\<close>

lemma approved_and_paid_run:
  "map approval_view (businesses (run {}
     [CreateIntent (stripe_with (intent ''pi_1'' ''requires_payment_method'' None)) alice (Some 10),
      CreateIntent (stripe_with (intent ''pi_2'' ''requires_payment_method'' None)) alice (Some 10),
      Confirm (stripe_with (intent ''pi_1'' ''succeeded'' None)) alice ''pi_1'' 7 50,
      Approve root_admin 10 60,
      Webhook (\<lambda>raw sig. stripe_event ''payment_intent.payment_failed''
                 (intent ''pi_2'' ''requires_payment_method'' (Some ''card_declined'')))
        ''payload'' ''signature'']
     (db [shop] []))) = [(True, ''paid'')]"
  by (simp add: create_defs confirm_defs admin_defs sample_defs db_defs approval_view_def
      Let_def string_of_nat.simps digit_char_def)

text \<open>
  The invariant rests on the webhook route writing nothing.  The helper for a failed
  payment, given the event of that request, writes \<open>paymentStatus\<close> without looking at
  \<open>isApproved\<close>: on an approved business it leaves the gate broken.
\<close>

lemma handlePaymentFailed_ignores_approval:
  "map approval_view (businesses (snd (handlePaymentFailed {}
       (intent ''pi_2'' ''requires_payment_method'' (Some ''card_declined''))
       (db [shop\<lparr>paymentStatus := ''paid'', isApproved := True\<rparr>] [pay 101 ''pi_2'' ''pending'']))))
   = [(True, ''failed'')]"
  by (simp add: handlePaymentFailed_def handlePaymentFailed_try_def catch_and_log_eq sample_defs
      db_defs approval_view_def)

section \<open>The status poll\<close>





section \<open>Cancellation and retry\<close>

text \<open>
  Claim C7 says that a transition to canceled, on either channel, marks the record canceled
  and resets the business to pending.  The confirm endpoint stores the status and, unless
  it is succeeded, writes no business.  With the gateway reporting \<open>canceled\<close>: the
  payment of a business marked failed is stored as canceled and the business stays failed;
  and after two intents are created for a business and the first is confirmed as
  succeeded, confirming the second as canceled stores it as canceled and leaves the
  business paid.
\<close>

theorem confirm_canceled_no_reset:
  "ledger (snd (confirm {} (stripe_with (intent ''pi_1'' ''canceled'' None)) alice ''pi_1'' 7 50
       (db [shop\<lparr>paymentStatus := ''failed''\<rparr>] [pay 100 ''pi_1'' ''failed''])))
   = ([pay 100 ''pi_1'' ''canceled''], [], [shop\<lparr>paymentStatus := ''failed''\<rparr>])
   \<and> map (\<lambda>p. (stripePaymentIntentId p, status p))
       (payments (run {}
         [CreateIntent (stripe_with (intent ''pi_1'' ''requires_payment_method'' None)) alice (Some 10),
          CreateIntent (stripe_with (intent ''pi_2'' ''requires_payment_method'' None)) alice (Some 10),
          Confirm (stripe_with (intent ''pi_1'' ''succeeded'' None)) alice ''pi_1'' 7 50,
          Confirm (stripe_with (intent ''pi_2'' ''canceled'' None)) alice ''pi_2'' 8 51]
         (db [shop] [])))
     = [(''pi_1'', ''succeeded''), (''pi_2'', ''canceled'')]
   \<and> map paymentStatus
       (businesses (run {}
         [CreateIntent (stripe_with (intent ''pi_1'' ''requires_payment_method'' None)) alice (Some 10),
          CreateIntent (stripe_with (intent ''pi_2'' ''requires_payment_method'' None)) alice (Some 10),
          Confirm (stripe_with (intent ''pi_1'' ''succeeded'' None)) alice ''pi_1'' 7 50,
          Confirm (stripe_with (intent ''pi_2'' ''canceled'' None)) alice ''pi_2'' 8 51]
         (db [shop] [])))
     = [''paid'']"
  by (simp add: create_defs confirm_defs ledger_def sample_defs db_defs Let_def
      string_of_nat.simps digit_char_def)

text \<open>
  In general: a confirm call to which the gateway reports anything but succeeded leaves
  every business as it was.
\<close>

lemma confirm_not_succeeded_businesses:
  assumes "paymentIntents_retrieve gw k = Some pi" and "pi_status pi \<noteq> ''succeeded''"
  shows "businesses (snd (confirm F gw u k rnd now s)) = businesses s"
  using assms
  by (auto simp: confirm_def confirm_update_def businesses_confirm_save split: option.splits)

text \<open>
  The webhook helper for the same observation, given the event: status and business are
  both written.
\<close>

lemma webhook_canceled_effect:
  assumes "find (\<lambda>q. stripePaymentIntentId q = pi_id pi) (payments s) = Some p"
  shows "snd (webhook {} (Some \<lparr>ev_type = ''payment_intent.canceled'', ev_object = pi\<rparr>) s)
    = s\<lparr>payments := updateOne (\<lambda>q. p_id q = p_id p) (\<lambda>q. p\<lparr>status := ''canceled''\<rparr>) (payments s),
         businesses := updateOne (\<lambda>b. b_id b = p_business p)
           (\<lambda>b. b\<lparr>paymentStatus := ''pending''\<rparr>) (businesses s)\<rparr>"
  using assms by (simp add: webhook_defs handlePaymentCanceled_try_def db_defs catch_and_log_eq)

text \<open>
  The retry.  Create-intent does not read the business's \<open>paymentStatus\<close>: it is stopped
  only by a succeeded payment record of the business.  Without one, and with a gateway that
  answers, it creates the intent and appends one pending payment record.
\<close>

lemma create_and_record_ok:
  assumes "paymentIntents_create gw 9900 ''usd'' (c_id c)
                   (''Business listing fee for '' @ b_name b) = Some pi'"
    and "pi_id pi' \<notin> set (map stripePaymentIntentId (payments s))"
  shows "create_and_record {} gw u b c s
         = (IntentCreated (client_secret pi') (fresh_oid (map p_id (payments s))) (pi_id pi'),
            (gateway_call (PaymentIntentsCreate 9900 ''usd'' (c_id c)
                    (''Business listing fee for '' @ b_name b)) s)
             \<lparr>payments := payments s @ [new_payment u b pi' c (fresh_oid (map p_id (payments s)))]\<rparr>)"
  using assms
  by (simp add: create_and_record_def Payment_create_def Let_def new_payment_def
      payment_status_enum_def gateway_call_def)

lemma create_intent_ok:
  assumes "userType u = ''Business''"
    and "find (\<lambda>x. b_id x = bid \<and> b_owner x = u_id u) (businesses s) = Some b"
    and "find (\<lambda>q. p_business q = bid \<and> status q = ''succeeded'') (payments s) = None"
    and cust: "customers_list gw (email u) = Some (c # cs)
               \<or> (customers_list gw (email u) = Some []
                  \<and> customers_create gw (email u) (firstName u @ '' '' @ lastName u) = Some c)"
    and "paymentIntents_create gw 9900 ''usd'' (c_id c)
                   (''Business listing fee for '' @ b_name b) = Some pi'"
    and "pi_id pi' \<notin> set (map stripePaymentIntentId (payments s))"
  shows "fst (create_intent {} gw u (Some bid) s)
           = IntentCreated (client_secret pi') (fresh_oid (map p_id (payments s))) (pi_id pi')
       \<and> payments (snd (create_intent {} gw u (Some bid) s))
           = payments s @ [new_payment u b pi' c (fresh_oid (map p_id (payments s)))]"
proof -
  obtain s1 where foc: "find_or_create_customer gw u s = (Some c, s1)"
    and pays: "payments s1 = payments s"
    using cust by (auto simp: find_or_create_customer_def Let_def)
  have ci: "create_intent {} gw u (Some bid) s = create_and_record {} gw u b c s1"
    using assms(1-3) foc by (simp add: create_intent_def)
  show ?thesis
    using assms(5,6) by (simp add: ci create_and_record_ok pays)
qed

section \<open>Delivering one observation twice\<close>

text \<open>
  Claim C1 says that an observation applied twice, on any combination of the two channels,
  leaves the ledger as one application does and creates at most one order.  The confirm
  endpoint creates an order every time it sees succeeded, whatever is stored: two confirm
  calls for the same succeeded intent leave two orders.
\<close>

theorem double_confirm_counterexample:
  "length (orders (observe \<lparr>d_channel = ViaConfirm, d_user = alice, d_rnd = 7, d_now = 50\<rparr>
      (intent ''pi_1'' ''succeeded'' None) (db [shop] [pay 100 ''pi_1'' ''pending'']))) = 1
   \<and> length (orders (observe \<lparr>d_channel = ViaConfirm, d_user = alice, d_rnd = 8, d_now = 51\<rparr>
      (intent ''pi_1'' ''succeeded'' None)
      (observe \<lparr>d_channel = ViaConfirm, d_user = alice, d_rnd = 7, d_now = 50\<rparr>
         (intent ''pi_1'' ''succeeded'' None) (db [shop] [pay 100 ''pi_1'' ''pending''])))) = 2"
  by (simp add: observe_def observe_on.simps confirm_defs retrieve_returns_def sample_defs db_defs
      Let_def string_of_nat.simps digit_char_def)

text \<open>
  Every other combination is harmless.  The proof goes through what each delivery writes
  when the payments collection has unique _id and intent id.
\<close>

lemma updateOne_twice:
  assumes "\<And>x. q x \<Longrightarrow> q (f x)"
  shows "updateOne q g (updateOne q f xs) = updateOne q (\<lambda>x. g (f x)) xs"
  using assms by (induction xs) auto

lemma updateOne_const_twice:
  assumes "key a = k"
  shows "updateOne (\<lambda>q. key q = k) (\<lambda>q. b) (updateOne (\<lambda>q. key q = k) (\<lambda>q. a) xs)
         = updateOne (\<lambda>q. key q = k) (\<lambda>q. b) xs"
  using assms by (simp add: updateOne_twice)

lemma find_intent_written:
  assumes uniq: "unique_payments s"
    and p: "find (\<lambda>q. stripePaymentIntentId q = i) (payments s) = Some p"
    and p': "p_id p' = p_id p" "stripePaymentIntentId p' = i"
  shows "find (\<lambda>q. stripePaymentIntentId q = i)
           (updateOne (\<lambda>q. p_id q = p_id p) (\<lambda>q. p') (payments s)) = Some p'"
proof -
  let ?g = "\<lambda>q. if p_id q = p_id p then p' else q"
  have pin: "p \<in> set (payments s)" and pint: "stripePaymentIntentId p = i"
    using p by (auto dest: find_Some_iff[THEN iffD1])
  have "find (\<lambda>q. stripePaymentIntentId (?g q) = i) (payments s)
        = find (\<lambda>q. stripePaymentIntentId q = i) (payments s)"
  proof (rule find_cong)
    show "payments s = payments s" by simp
  next
    fix q assume q: "q \<in> set (payments s)"
    show "(stripePaymentIntentId (?g q) = i) = (stripePaymentIntentId q = i)"
    proof (cases "p_id q = p_id p")
      case True
      with unique_payment_by_id[OF uniq pin q] have "q = p" by simp
      with pint p'(2) show ?thesis by simp
    next
      case False
      then show ?thesis by simp
    qed
  qed
  with p have "find (\<lambda>q. stripePaymentIntentId (?g q) = i) (payments s) = Some p" by simp
  then have "find (\<lambda>q. stripePaymentIntentId q = i) (map ?g (payments s)) = Some p'"
    by (simp add: find_map_list)
  moreover have "updateOne (\<lambda>q. p_id q = p_id p) (\<lambda>q. p') (payments s) = map ?g (payments s)"
    using uniq by (simp add: updateOne_distinct[where key=p_id] unique_payments_def)
  ultimately show ?thesis by simp
qed

lemma unique_written:
  assumes uniq: "unique_payments s"
    and p: "find (\<lambda>q. stripePaymentIntentId q = i) (payments s) = Some p"
    and p': "p_id p' = p_id p" "stripePaymentIntentId p' = i"
    and s': "payments s' = updateOne (\<lambda>q. p_id q = p_id p) (\<lambda>q. p') (payments s)"
  shows "unique_payments s'"
proof -
  let ?g = "\<lambda>q. if p_id q = p_id p then p' else q"
  have pin: "p \<in> set (payments s)" and pint: "stripePaymentIntentId p = i"
    using p by (auto dest: find_Some_iff[THEN iffD1])
  have eq: "payments s' = map ?g (payments s)"
    using uniq by (simp add: s' updateOne_distinct[where key=p_id] unique_payments_def)
  have "map p_id (map ?g (payments s)) = map p_id (payments s)"
    by (rule map_key_after) (simp add: p'(1))
  moreover have "map stripePaymentIntentId (map ?g (payments s)) = map stripePaymentIntentId (payments s)"
  proof (rule map_key_after)
    fix q assume q: "q \<in> set (payments s)"
    show "stripePaymentIntentId (?g q) = stripePaymentIntentId q"
    proof (cases "p_id q = p_id p")
      case True
      with unique_payment_by_id[OF uniq pin q] have "q = p" by simp
      with pint p'(2) show ?thesis by simp
    next
      case False
      then show ?thesis by simp
    qed
  qed
  ultimately show ?thesis
    using uniq unfolding unique_payments_def eq by (simp only:)
qed

lemma find_intent_user:
  assumes uniq: "unique_payments s"
    and p: "find (\<lambda>q. stripePaymentIntentId q = i) (payments s) = Some p"
  shows "find (\<lambda>q. stripePaymentIntentId q = i \<and> p_user q = u) (payments s)
         = (if p_user p = u then Some p else None)"
proof (cases "p_user p = u")
  case True
  with find_key_and[OF p, of "\<lambda>q. p_user q = u"] show ?thesis by simp
next
  case False
  have pin: "p \<in> set (payments s)" and pint: "stripePaymentIntentId p = i"
    using p by (auto dest: find_Some_iff[THEN iffD1])
  have "\<not> (stripePaymentIntentId q = i \<and> p_user q = u)" if q: "q \<in> set (payments s)" for q
  proof
    assume a: "stripePaymentIntentId q = i \<and> p_user q = u"
    with pint have "stripePaymentIntentId q = stripePaymentIntentId p" by simp
    from unique_payment_by_intent[OF uniq pin q this] a False show False by simp
  qed
  then have "find (\<lambda>q. stripePaymentIntentId q = i \<and> p_user q = u) (payments s) = None"
    unfolding find_None_iff by blast
  with False show ?thesis by simp
qed

lemma find_intent_user_None:
  assumes "find (\<lambda>q. stripePaymentIntentId q = i) (payments s) = None"
  shows "find (\<lambda>q. stripePaymentIntentId q = i \<and> p_user q = u) (payments s) = None"
  using assms unfolding find_None_iff by blast


lemmas observe_webhook_defs = observe_on.simps webhook_defs handlePaymentSucceeded_try_def
  handlePaymentFailed_try_def handlePaymentCanceled_try_def catch_and_log_eq event_type_of_def
  db_defs ledger_def

lemma new_order_status [simp]: "new_order u (p\<lparr>status := x\<rparr>) pi rnd now i = new_order u p pi rnd now i"
  by (simp add: new_order_def)

lemma o_id_new_order [simp]: "o_id (new_order u p pi rnd now i) = i"
  by (simp add: new_order_def)

lemma orderNumber_new_order [simp]:
  "orderNumber (new_order u p pi rnd now i) = generateOrderNumber rnd"
  by (simp add: new_order_def)

lemma webhook_none:
  assumes "find (\<lambda>q. stripePaymentIntentId q = pi_id pi) (payments s) = None"
  shows "ledger (observe_on ViaWebhook d pi s) = ledger s"
  using assms by (simp add: observe_webhook_defs)

lemma webhook_succeeded:
  assumes "find (\<lambda>q. stripePaymentIntentId q = pi_id pi) (payments s) = Some p"
    and "pi_status pi = ''succeeded''"
  shows "ledger (observe_on ViaWebhook d pi s)
         = (updateOne (\<lambda>q. p_id q = p_id p) (\<lambda>q. p\<lparr>status := ''succeeded''\<rparr>) (payments s),
            orders s,
            updateOne (\<lambda>b. b_id b = p_business p) (\<lambda>b. b\<lparr>paymentStatus := ''paid''\<rparr>)
              (businesses s))"
  using assms by (simp add: observe_webhook_defs)

lemma webhook_failed:
  assumes "find (\<lambda>q. stripePaymentIntentId q = pi_id pi) (payments s) = Some p"
    and "pi_status pi = ''failed'' \<or> pi_status pi = ''payment_failed''"
  shows "ledger (observe_on ViaWebhook d pi s)
         = (updateOne (\<lambda>q. p_id q = p_id p)
              (\<lambda>q. p\<lparr>status := ''failed'',
                      failureReason := Some (js_or (last_payment_error pi) ''Payment failed'')\<rparr>)
              (payments s),
            orders s,
            updateOne (\<lambda>b. b_id b = p_business p) (\<lambda>b. b\<lparr>paymentStatus := ''failed''\<rparr>)
              (businesses s))"
  using assms by (auto simp: observe_webhook_defs)

lemma webhook_canceled:
  assumes "find (\<lambda>q. stripePaymentIntentId q = pi_id pi) (payments s) = Some p"
    and "pi_status pi = ''canceled''"
  shows "ledger (observe_on ViaWebhook d pi s)
         = (updateOne (\<lambda>q. p_id q = p_id p) (\<lambda>q. p\<lparr>status := ''canceled''\<rparr>) (payments s),
            orders s,
            updateOne (\<lambda>b. b_id b = p_business p) (\<lambda>b. b\<lparr>paymentStatus := ''pending''\<rparr>)
              (businesses s))"
  using assms by (simp add: observe_webhook_defs)

lemma webhook_unhandled:
  assumes "pi_status pi \<noteq> ''succeeded''" and "pi_status pi \<noteq> ''failed''"
    and "pi_status pi \<noteq> ''payment_failed''" and "pi_status pi \<noteq> ''canceled''"
  shows "observe_on ViaWebhook d pi s = s"
  using assms by (simp add: observe_on.simps webhook_defs event_type_of_def)

lemma webhook_orders [simp]: "orders (observe_on ViaWebhook d pi s) = orders s"
  by (auto simp: observe_on.simps webhook_defs handlePaymentSucceeded_try_def
      handlePaymentFailed_try_def handlePaymentCanceled_try_def catch_and_log_eq db_defs
      split: option.splits)

lemmas observe_confirm_defs = observe_on.simps confirm_defs retrieve_returns_def db_defs ledger_def

lemma confirm_none:
  assumes "find (\<lambda>q. stripePaymentIntentId q = pi_id pi) (payments s) = None"
  shows "ledger (observe_on ViaConfirm d pi s) = ledger s"
  using find_intent_user_None[OF assms, of "u_id (d_user d)"]
  by (simp add: observe_confirm_defs)

lemma confirm_not_owner:
  assumes "unique_payments s"
    and "find (\<lambda>q. stripePaymentIntentId q = pi_id pi) (payments s) = Some p"
    and "userType (d_user d) \<noteq> ''Business'' \<or> pi_id pi = [] \<or> p_user p \<noteq> u_id (d_user d)"
  shows "ledger (observe_on ViaConfirm d pi s) = ledger s"
  using assms(3) find_intent_user[OF assms(1,2), of "u_id (d_user d)"]
  by (auto simp: observe_confirm_defs)

lemma confirm_succeeded_no_business:
  assumes "unique_payments s"
    and "find (\<lambda>q. stripePaymentIntentId q = pi_id pi) (payments s) = Some p"
    and "pi_status pi = ''succeeded''"
    and "stored_business s (p_business p) = None"
  shows "ledger (observe_on ViaConfirm d pi s) = ledger s"
  using assms(3,4) find_intent_user[OF assms(1,2), of "u_id (d_user d)"]
  by (auto simp: observe_confirm_defs stored_business_def)

lemma confirm_succeeded_effect:
  assumes "unique_payments s"
    and "find (\<lambda>q. stripePaymentIntentId q = pi_id pi) (payments s) = Some p"
    and "userType (d_user d) = ''Business''" and "pi_id pi \<noteq> []"
    and "p_user p = u_id (d_user d)"
    and "pi_status pi = ''succeeded''"
    and "stored_business s (p_business p) = Some b"
    and "generateOrderNumber (d_rnd d) \<notin> set (map orderNumber (orders s))"
  shows "ledger (observe_on ViaConfirm d pi s)
         = (updateOne (\<lambda>q. p_id q = p_id p)
              (\<lambda>q. p\<lparr>status := ''succeeded''\<rparr>) (payments s),
            orders s @ [new_order (d_user d) p pi (d_rnd d) (d_now d) (fresh_oid (map o_id (orders s)))],
            updateOne (\<lambda>b. b_id b = p_business p)
              (\<lambda>b. b\<lparr>paymentStatus := ''paid'', paymentId := Some (p_id p)\<rparr>) (businesses s))"
proof -
  have "b_id b = p_business p" using assms(7) by (rule stored_business_id)
  then show ?thesis
    using assms(3-8) find_intent_user[OF assms(1,2), of "u_id (d_user d)"]
    by (simp add: observe_on.simps confirm_def confirm_update_def confirm_succeeded_def
        confirm_save_def persisted_def retrieve_returns_def payment_save_def Order_create_def
        Business_findByIdAndUpdate_def gateway_call_def ledger_def stored_business_def Let_def)
qed

lemma confirm_other_valid:
  assumes "unique_payments s"
    and "find (\<lambda>q. stripePaymentIntentId q = pi_id pi) (payments s) = Some p"
    and "userType (d_user d) = ''Business''" and "pi_id pi \<noteq> []"
    and "p_user p = u_id (d_user d)"
    and "pi_status pi \<noteq> ''succeeded''"
    and "pi_status pi \<in> set payment_status_enum"
  shows "ledger (observe_on ViaConfirm d pi s)
         = (updateOne (\<lambda>q. p_id q = p_id p) (\<lambda>q. p\<lparr>status := pi_status pi\<rparr>) (payments s),
            orders s, businesses s)"
proof -
  have "pi_status pi \<noteq> ''payment_failed''"
    using assms(7) by (auto simp: payment_status_enum_def)
  then show ?thesis
    using assms(3-7) find_intent_user[OF assms(1,2), of "u_id (d_user d)"]
    by (simp add: observe_on.simps confirm_def confirm_update_def confirm_save_def
        retrieve_returns_def payment_save_def gateway_call_def ledger_def)
qed

lemma confirm_other_invalid:
  assumes "pi_status pi \<noteq> ''succeeded''"
    and "pi_status pi \<notin> set payment_status_enum"
  shows "ledger (observe_on ViaConfirm d pi s) = ledger s"
  using assms
  by (auto simp: observe_on.simps confirm_def confirm_update_def confirm_save_def
        retrieve_returns_def payment_save_def gateway_call_def ledger_def split: option.splits)


lemma ledger_eq_iff:
  "(ledger s = (Ps, Os, Bs)) = (payments s = Ps \<and> orders s = Os \<and> businesses s = Bs)"
  by (auto simp: ledger_def)

lemma ledger_cong_iff:
  "(ledger s' = ledger s)
   = (payments s' = payments s \<and> orders s' = orders s \<and> businesses s' = businesses s)"
  by (auto simp: ledger_def)

lemma webhook_ledger_cong:
  assumes "ledger s' = ledger s"
  shows "ledger (observe_on ViaWebhook d pi s') = ledger (observe_on ViaWebhook d pi s)"
proof -
  from assms have eq: "payments s' = payments s" "orders s' = orders s"
    "businesses s' = businesses s"
    by (simp_all add: ledger_cong_iff)
  show ?thesis
    by (simp add: observe_webhook_defs eq split: option.splits)
qed

lemma confirm_ledger_cong:
  assumes "ledger s' = ledger s"
  shows "ledger (observe_on ViaConfirm d pi s') = ledger (observe_on ViaConfirm d pi s)"
proof -
  from assms have eq: "payments s' = payments s" "orders s' = orders s"
    "businesses s' = businesses s"
    by (simp_all add: ledger_cong_iff)
  show ?thesis
    by (simp add: observe_confirm_defs eq Let_def split: option.splits)
qed


lemma webhook_doc_simps [simp]:
  "p_id (webhook_doc pi p) = p_id p"
  "stripePaymentIntentId (webhook_doc pi p) = stripePaymentIntentId p"
  "p_user (webhook_doc pi p) = p_user p"
  "p_business (webhook_doc pi p) = p_business p"
  "metadata (webhook_doc pi p) = metadata p"
  "webhook_doc pi (webhook_doc pi p) = webhook_doc pi p"
  "webhook_doc pi (p\<lparr>status := x\<rparr>) = webhook_doc pi p"
  by (simp_all add: webhook_doc_def)

lemma webhook_business_simps [simp]:
  "b_id (webhook_business pi b) = b_id b"
  "webhook_business pi (webhook_business pi b) = webhook_business pi b"
  by (simp_all add: webhook_business_def)

lemma webhook_handled:
  assumes "find (\<lambda>q. stripePaymentIntentId q = pi_id pi) (payments s) = Some p"
    and "webhook_handles (pi_status pi)"
  shows "ledger (observe_on ViaWebhook d pi s)
         = (updateOne (\<lambda>q. p_id q = p_id p) (\<lambda>q. webhook_doc pi p) (payments s),
            orders s,
            updateOne (\<lambda>b. b_id b = p_business p) (webhook_business pi) (businesses s))"
proof -
  consider "pi_status pi = ''succeeded''" | "pi_status pi = ''canceled''"
    | "pi_status pi = ''failed'' \<or> pi_status pi = ''payment_failed''"
    using assms(2) by (auto simp: webhook_handles_def)
  then show ?thesis
  proof cases
    case 1
    have "webhook_business pi = (\<lambda>b. b\<lparr>paymentStatus := ''paid''\<rparr>)"
      using 1 by (rule_tac ext) (simp add: webhook_business_def)
    with 1 webhook_succeeded[OF assms(1) 1, of d] show ?thesis
      by (simp add: webhook_doc_def)
  next
    case 2
    have "webhook_business pi = (\<lambda>b. b\<lparr>paymentStatus := ''pending''\<rparr>)"
      using 2 by (rule_tac ext) (simp add: webhook_business_def)
    with 2 webhook_canceled[OF assms(1) 2, of d] show ?thesis
      by (simp add: webhook_doc_def)
  next
    case 3
    then have ns: "pi_status pi \<noteq> ''succeeded''" "pi_status pi \<noteq> ''canceled''" by auto
    have "webhook_business pi = (\<lambda>b. b\<lparr>paymentStatus := ''failed''\<rparr>)"
      using ns by (rule_tac ext) (simp add: webhook_business_def)
    with ns webhook_failed[OF assms(1) 3, of d] show ?thesis
      by (simp add: webhook_doc_def)
  qed
qed

lemma webhook_not_handled:
  assumes "\<not> webhook_handles (pi_status pi)"
  shows "observe_on ViaWebhook d pi s = s"
  using assms by (intro webhook_unhandled) (auto simp: webhook_handles_def)

text \<open>The state after a write to the payment found by its intent id.\<close>

lemma after_write:
  assumes "unique_payments s"
    and "find (\<lambda>q. stripePaymentIntentId q = i) (payments s) = Some p"
    and "payments s1 = updateOne (\<lambda>q. p_id q = p_id p) (\<lambda>q. p1) (payments s)"
    and "p_id p1 = p_id p" and "stripePaymentIntentId p1 = i"
  shows "unique_payments s1"
    and "find (\<lambda>q. stripePaymentIntentId q = i) (payments s1) = Some p1"
proof -
  show "unique_payments s1"
    by (rule unique_written[OF assms(1,2,4,5,3)])
  show "find (\<lambda>q. stripePaymentIntentId q = i) (payments s1) = Some p1"
    unfolding assms(3) by (rule find_intent_written[OF assms(1,2,4,5)])
qed

lemma unique_payments_cong: "payments s' = payments s \<Longrightarrow> unique_payments s' = unique_payments s"
  by (simp add: unique_payments_def)

lemma redelivery_webhook_webhook:
  assumes uniq: "unique_payments s"
  shows "ledger (observe_on ViaWebhook d2 pi (observe_on ViaWebhook d1 pi s))
         = ledger (observe_on ViaWebhook d1 pi s)"
proof (cases "webhook_handles (pi_status pi)")
  case False
  then show ?thesis by (simp add: webhook_not_handled)
next
  case True
  show ?thesis
  proof (cases "find (\<lambda>q. stripePaymentIntentId q = pi_id pi) (payments s)")
    case None
    have "ledger (observe_on ViaWebhook d1 pi s) = ledger s"
      by (rule webhook_none[OF None])
    from webhook_ledger_cong[OF this] this webhook_none[OF None] show ?thesis by simp
  next
    case (Some p)
    let ?s1 = "observe_on ViaWebhook d1 pi s"
    have l1: "ledger ?s1
         = (updateOne (\<lambda>q. p_id q = p_id p) (\<lambda>q. webhook_doc pi p) (payments s),
            orders s,
            updateOne (\<lambda>b. b_id b = p_business p) (webhook_business pi) (businesses s))"
      by (rule webhook_handled[OF Some True])
    then have p1: "payments ?s1 = updateOne (\<lambda>q. p_id q = p_id p) (\<lambda>q. webhook_doc pi p) (payments s)"
      and o1: "orders ?s1 = orders s"
      and b1: "businesses ?s1 = updateOne (\<lambda>b. b_id b = p_business p) (webhook_business pi) (businesses s)"
      by (simp_all only: ledger_eq_iff)
    have f1: "find (\<lambda>q. stripePaymentIntentId q = pi_id pi) (payments ?s1) = Some (webhook_doc pi p)"
      using Some by (intro after_write(2)[OF uniq Some p1]) (auto dest: find_Some_iff[THEN iffD1])
    have "ledger (observe_on ViaWebhook d2 pi ?s1)
         = (updateOne (\<lambda>q. p_id q = p_id (webhook_doc pi p)) (\<lambda>q. webhook_doc pi (webhook_doc pi p)) (payments ?s1),
            orders ?s1,
            updateOne (\<lambda>b. b_id b = p_business (webhook_doc pi p)) (webhook_business pi) (businesses ?s1))"
      by (rule webhook_handled[OF f1 True])
    also have "\<dots> = ledger ?s1"
      unfolding l1 p1 o1 b1 by (simp add: updateOne_twice)
    finally show ?thesis .
  qed
qed


lemma confirm_cases:
  assumes uniq: "unique_payments s"
    and p: "find (\<lambda>q. stripePaymentIntentId q = pi_id pi) (payments s) = Some p"
    and fresh: "generateOrderNumber (d_rnd d) \<notin> set (map orderNumber (orders s))"
  obtains (noop) "ledger (observe_on ViaConfirm d pi s) = ledger s"
  | (paid) b where "pi_status pi = ''succeeded''"
      "stored_business s (p_business p) = Some b"
      "userType (d_user d) = ''Business'' \<and> pi_id pi \<noteq> [] \<and> p_user p = u_id (d_user d)"
      "ledger (observe_on ViaConfirm d pi s)
         = (updateOne (\<lambda>q. p_id q = p_id p)
              (\<lambda>q. p\<lparr>status := ''succeeded''\<rparr>) (payments s),
            orders s @ [new_order (d_user d) p pi (d_rnd d) (d_now d) (fresh_oid (map o_id (orders s)))],
            updateOne (\<lambda>b. b_id b = p_business p)
              (\<lambda>b. b\<lparr>paymentStatus := ''paid'', paymentId := Some (p_id p)\<rparr>) (businesses s))"
  | (stored) "pi_status pi \<noteq> ''succeeded''" "pi_status pi \<in> set payment_status_enum"
      "ledger (observe_on ViaConfirm d pi s)
         = (updateOne (\<lambda>q. p_id q = p_id p) (\<lambda>q. p\<lparr>status := pi_status pi\<rparr>) (payments s),
            orders s, businesses s)"
proof (cases "userType (d_user d) = ''Business'' \<and> pi_id pi \<noteq> [] \<and> p_user p = u_id (d_user d)")
  case False
  then have "ledger (observe_on ViaConfirm d pi s) = ledger s"
    by (intro confirm_not_owner[OF uniq p]) auto
  then show ?thesis by (rule noop)
next
  case own: True
  show ?thesis
  proof (cases "pi_status pi = ''succeeded''")
    case True
    show ?thesis
    proof (cases "stored_business s (p_business p)")
      case None
      from confirm_succeeded_no_business[OF uniq p True None] show ?thesis by (rule noop)
    next
      case (Some b)
      from own have "userType (d_user d) = ''Business''" "pi_id pi \<noteq> []"
        "p_user p = u_id (d_user d)" by simp_all
      from confirm_succeeded_effect[OF uniq p this True Some fresh] True Some own
      show ?thesis by (intro paid)
    qed
  next
    case False
    show ?thesis
    proof (cases "pi_status pi \<in> set payment_status_enum")
      case True
      from own have "userType (d_user d) = ''Business''" "pi_id pi \<noteq> []"
        "p_user p = u_id (d_user d)" by simp_all
      from confirm_other_valid[OF uniq p this False True] False True
      show ?thesis by (intro stored)
    next
      case inv: False
      from confirm_other_invalid[OF False inv] show ?thesis by (rule noop)
    qed
  qed
qed

lemma redelivery_confirm_webhook:
  assumes uniq: "unique_payments s"
    and fresh: "generateOrderNumber (d_rnd d1) \<notin> set (map orderNumber (orders s))"
  shows "ledger (observe_on ViaWebhook d2 pi (observe_on ViaConfirm d1 pi s))
           = ledger (observe_on ViaConfirm d1 pi s)
         \<or> ledger (observe_on ViaWebhook d2 pi (observe_on ViaConfirm d1 pi s))
           = ledger (observe_on ViaWebhook d2 pi s)"
proof (cases "webhook_handles (pi_status pi)")
  case False
  then show ?thesis by (simp add: webhook_not_handled)
next
  case handled: True
  let ?s1 = "observe_on ViaConfirm d1 pi s"
  show ?thesis
  proof (cases "find (\<lambda>q. stripePaymentIntentId q = pi_id pi) (payments s)")
    case None
    from webhook_ledger_cong[OF confirm_none[OF None]] show ?thesis by blast
  next
    case (Some p)
    have pint: "stripePaymentIntentId p = pi_id pi"
      using Some by (auto dest: find_Some_iff[THEN iffD1])
    from uniq Some fresh show ?thesis
    proof (cases rule: confirm_cases)
      case noop
      from webhook_ledger_cong[OF noop] show ?thesis by blast
    next
      case (paid b)
      let ?p1 = "p\<lparr>status := ''succeeded''\<rparr>"
      from paid(4) have p1: "payments ?s1 = updateOne (\<lambda>q. p_id q = p_id p) (\<lambda>q. ?p1) (payments s)"
        and b1: "businesses ?s1 = updateOne (\<lambda>b. b_id b = p_business p)
              (\<lambda>b. b\<lparr>paymentStatus := ''paid'', paymentId := Some (p_id p)\<rparr>) (businesses s)"
        by (simp_all only: ledger_eq_iff)
      have f1: "find (\<lambda>q. stripePaymentIntentId q = pi_id pi) (payments ?s1) = Some ?p1"
        by (rule after_write(2)[OF uniq Some p1]) (simp_all add: pint)
      have "ledger (observe_on ViaWebhook d2 pi ?s1)
         = (updateOne (\<lambda>q. p_id q = p_id ?p1) (\<lambda>q. webhook_doc pi ?p1) (payments ?s1),
            orders ?s1,
            updateOne (\<lambda>b. b_id b = p_business ?p1) (webhook_business pi) (businesses ?s1))"
        by (rule webhook_handled[OF f1 handled])
      also have "\<dots> = ledger ?s1"
      proof -
        have d: "webhook_doc pi ?p1 = ?p1"
          using paid(1) by (simp add: webhook_doc_def)
        have b: "(\<lambda>x. webhook_business pi
                    (x\<lparr>paymentStatus := ''paid'', paymentId := Some (p_id p)\<rparr>))
                 = (\<lambda>x. x\<lparr>paymentStatus := ''paid'', paymentId := Some (p_id p)\<rparr>)"
          using paid(1) by (intro ext) (simp add: webhook_business_def)
        have "updateOne (\<lambda>q. p_id q = p_id ?p1) (\<lambda>q. webhook_doc pi ?p1) (payments ?s1)
              = payments ?s1"
          unfolding d unfolding p1 by (simp add: updateOne_twice)
        moreover have "updateOne (\<lambda>b. b_id b = p_business ?p1) (webhook_business pi) (businesses ?s1)
              = businesses ?s1"
          unfolding b1 by (simp add: updateOne_twice b)
        ultimately show ?thesis by (simp only: ledger_def)
      qed
      finally show ?thesis by blast
    next
      case stored
      let ?p1 = "p\<lparr>status := pi_status pi\<rparr>"
      from stored(3) have p1: "payments ?s1 = updateOne (\<lambda>q. p_id q = p_id p) (\<lambda>q. ?p1) (payments s)"
        and o1: "orders ?s1 = orders s" and b1: "businesses ?s1 = businesses s"
        by (simp_all only: ledger_eq_iff)
      have f1: "find (\<lambda>q. stripePaymentIntentId q = pi_id pi) (payments ?s1) = Some ?p1"
        by (rule after_write(2)[OF uniq Some p1]) (simp_all add: pint)
      have "ledger (observe_on ViaWebhook d2 pi ?s1)
         = (updateOne (\<lambda>q. p_id q = p_id ?p1) (\<lambda>q. webhook_doc pi ?p1) (payments ?s1),
            orders ?s1,
            updateOne (\<lambda>b. b_id b = p_business ?p1) (webhook_business pi) (businesses ?s1))"
        by (rule webhook_handled[OF f1 handled])
      also have "\<dots> = ledger (observe_on ViaWebhook d2 pi s)"
        unfolding p1 o1 b1 webhook_handled[OF Some handled]
        by (simp add: updateOne_twice)
      finally show ?thesis by blast
    qed
  qed
qed


lemma webhook_doc_restatus:
  assumes "webhook_handles st" and "pi_status pi = st" and "st \<noteq> ''succeeded''"
    and "st \<in> set payment_status_enum"
  shows "(webhook_doc pi p)\<lparr>status := st\<rparr> = webhook_doc pi p"
  using assms by (auto simp: webhook_handles_def webhook_doc_def payment_status_enum_def)

lemma redelivery_webhook_confirm:
  assumes uniq: "unique_payments s"
    and fresh: "generateOrderNumber (d_rnd d2) \<notin> set (map orderNumber (orders s))"
  shows "ledger (observe_on ViaConfirm d2 pi (observe_on ViaWebhook d1 pi s))
           = ledger (observe_on ViaWebhook d1 pi s)
         \<or> ledger (observe_on ViaConfirm d2 pi (observe_on ViaWebhook d1 pi s))
           = ledger (observe_on ViaConfirm d2 pi s)"
proof (cases "webhook_handles (pi_status pi)")
  case False
  then show ?thesis by (simp add: webhook_not_handled)
next
  case handled: True
  let ?s1 = "observe_on ViaWebhook d1 pi s"
  show ?thesis
  proof (cases "find (\<lambda>q. stripePaymentIntentId q = pi_id pi) (payments s)")
    case None
    from confirm_ledger_cong[OF webhook_none[OF None]] show ?thesis by blast
  next
    case (Some p)
    have pint: "stripePaymentIntentId p = pi_id pi"
      using Some by (auto dest: find_Some_iff[THEN iffD1])
    let ?p1 = "webhook_doc pi p"
    have l1: "ledger ?s1
         = (updateOne (\<lambda>q. p_id q = p_id p) (\<lambda>q. ?p1) (payments s),
            orders s,
            updateOne (\<lambda>b. b_id b = p_business p) (webhook_business pi) (businesses s))"
      by (rule webhook_handled[OF Some handled])
    then have p1: "payments ?s1 = updateOne (\<lambda>q. p_id q = p_id p) (\<lambda>q. ?p1) (payments s)"
      and o1: "orders ?s1 = orders s"
      and b1: "businesses ?s1 = updateOne (\<lambda>b. b_id b = p_business p) (webhook_business pi) (businesses s)"
      by (simp_all only: ledger_eq_iff)
    have u1: "unique_payments ?s1"
      by (rule after_write(1)[OF uniq Some p1]) (simp_all add: pint)
    have f1: "find (\<lambda>q. stripePaymentIntentId q = pi_id pi) (payments ?s1) = Some ?p1"
      by (rule after_write(2)[OF uniq Some p1]) (simp_all add: pint)
    have fresh1: "generateOrderNumber (d_rnd d2) \<notin> set (map orderNumber (orders ?s1))"
      unfolding o1 by (rule fresh)
    from u1 f1 fresh1 show ?thesis
    proof (cases rule: confirm_cases)
      case noop
      then show ?thesis by blast
    next
      case (paid b1)
      from paid(2) have "stored_business s (p_business p) \<noteq> None"
        by (auto simp: stored_business_def b1 find_updateOne_same[where key=b_id])
      then obtain b where b: "stored_business s (p_business p) = Some b" by auto
      from paid(3) have own: "userType (d_user d2) = ''Business''" "pi_id pi \<noteq> []"
        "p_user p = u_id (d_user d2)" by simp_all
      have "ledger (observe_on ViaConfirm d2 pi s)
         = (updateOne (\<lambda>q. p_id q = p_id p)
              (\<lambda>q. p\<lparr>status := ''succeeded''\<rparr>) (payments s),
            orders s @ [new_order (d_user d2) p pi (d_rnd d2) (d_now d2) (fresh_oid (map o_id (orders s)))],
            updateOne (\<lambda>b. b_id b = p_business p)
              (\<lambda>b. b\<lparr>paymentStatus := ''paid'', paymentId := Some (p_id p)\<rparr>) (businesses s))"
        by (rule confirm_succeeded_effect[OF uniq Some own paid(1) b fresh])
      moreover have "ledger (observe_on ViaConfirm d2 pi ?s1) = \<dots>"
      proof -
        have d: "?p1 = p\<lparr>status := ''succeeded''\<rparr>"
          using paid(1) by (simp add: webhook_doc_def)
        have bb: "(\<lambda>x. (webhook_business pi x)\<lparr>paymentStatus := ''paid'', paymentId := Some (p_id p)\<rparr>)
                 = (\<lambda>x. x\<lparr>paymentStatus := ''paid'', paymentId := Some (p_id p)\<rparr>)"
          using paid(1) by (intro ext) (simp add: webhook_business_def)
        show ?thesis
          unfolding paid(4) unfolding p1 o1 b1 d
          by (simp add: updateOne_twice bb)
      qed
      ultimately show ?thesis by simp
    next
      case stored
      have "?p1\<lparr>status := pi_status pi\<rparr> = ?p1"
        by (rule webhook_doc_restatus[OF handled refl stored(1,2)])
      then have "ledger (observe_on ViaConfirm d2 pi ?s1) = ledger ?s1"
        unfolding stored(3) unfolding l1 p1 o1 b1 by (simp add: updateOne_twice)
      then show ?thesis by blast
    qed
  qed
qed


lemma redelivery_confirm_confirm:
  assumes uniq: "unique_payments s"
    and ns: "pi_status pi \<noteq> ''succeeded''"
  shows "ledger (observe_on ViaConfirm d2 pi (observe_on ViaConfirm d1 pi s))
           = ledger (observe_on ViaConfirm d1 pi s)
         \<or> ledger (observe_on ViaConfirm d2 pi (observe_on ViaConfirm d1 pi s))
           = ledger (observe_on ViaConfirm d2 pi s)"
proof (cases "find (\<lambda>q. stripePaymentIntentId q = pi_id pi) (payments s)")
  case None
  from confirm_ledger_cong[OF confirm_none[OF None]] show ?thesis by blast
next
  case (Some p)
  let ?s1 = "observe_on ViaConfirm d1 pi s"
  let ?p1 = "p\<lparr>status := pi_status pi\<rparr>"
  have pint: "stripePaymentIntentId p = pi_id pi"
    using Some by (auto dest: find_Some_iff[THEN iffD1])
  show ?thesis
  proof (cases "pi_status pi \<in> set payment_status_enum")
    case False
    from confirm_ledger_cong[OF confirm_other_invalid[OF ns False]] show ?thesis by blast
  next
    case valid: True
    show ?thesis
    proof (cases "userType (d_user d1) = ''Business'' \<and> pi_id pi \<noteq> []
                  \<and> p_user p = u_id (d_user d1)")
      case False
      then have "ledger ?s1 = ledger s"
        by (intro confirm_not_owner[OF uniq Some]) auto
      from confirm_ledger_cong[OF this] show ?thesis by blast
    next
      case True
      then have own: "userType (d_user d1) = ''Business''" "pi_id pi \<noteq> []"
        "p_user p = u_id (d_user d1)" by simp_all
      have l1: "ledger ?s1
         = (updateOne (\<lambda>q. p_id q = p_id p) (\<lambda>q. ?p1) (payments s), orders s, businesses s)"
        by (rule confirm_other_valid[OF uniq Some own ns valid])
      then have p1: "payments ?s1 = updateOne (\<lambda>q. p_id q = p_id p) (\<lambda>q. ?p1) (payments s)"
        and o1: "orders ?s1 = orders s" and b1: "businesses ?s1 = businesses s"
        by (simp_all only: ledger_eq_iff)
      have u1: "unique_payments ?s1"
        by (rule after_write(1)[OF uniq Some p1]) (simp_all add: pint)
      have f1: "find (\<lambda>q. stripePaymentIntentId q = pi_id pi) (payments ?s1) = Some ?p1"
        by (rule after_write(2)[OF uniq Some p1]) (simp_all add: pint)
      have "ledger (observe_on ViaConfirm d2 pi ?s1) = ledger ?s1"
      proof (cases "userType (d_user d2) = ''Business'' \<and> pi_id pi \<noteq> []
                    \<and> p_user ?p1 = u_id (d_user d2)")
        case False
        then show ?thesis
          by (intro confirm_not_owner[OF u1 f1]) auto
      next
        case True
        then have own2: "userType (d_user d2) = ''Business''" "pi_id pi \<noteq> []"
          "p_user ?p1 = u_id (d_user d2)" by simp_all
        show ?thesis
          unfolding confirm_other_valid[OF u1 f1 own2 ns valid] unfolding l1 p1 o1 b1
          by (simp add: updateOne_twice)
      qed
      then show ?thesis by blast
    qed
  qed
qed

lemma confirm_orders_bound:
  "length (orders (observe_on ViaConfirm d pi s)) \<le> Suc (length (orders s))"
  by (auto simp: observe_on.simps confirm_defs retrieve_returns_def db_iffs gateway_call_def
      split: option.splits)

lemma confirm_orders_same:
  "pi_status pi \<noteq> ''succeeded'' \<Longrightarrow> orders (observe_on ViaConfirm d pi s) = orders s"
  by (auto simp: observe_on.simps confirm_defs retrieve_returns_def db_iffs gateway_call_def
      split: option.splits)

text \<open>
  Claim C1, amended.  Let the payments collection have unique ids and intent ids, and let
  the order numbers drawn by the two requests be unused.  Unless both deliveries are
  confirm calls that observe succeeded, delivering the same observation twice, on any
  combination of the confirm endpoint and the webhook, leaves the ledger (payments,
  orders, businesses) as one of the two deliveries alone leaves it, and adds at most one
  order.
\<close>

theorem redelivery_idempotent:
  assumes "unique_payments s"
    and "\<not> (d_channel d1 = ViaConfirm \<and> d_channel d2 = ViaConfirm \<and> pi_status pi = ''succeeded'')"
    and "generateOrderNumber (d_rnd d1) \<notin> set (map orderNumber (orders s))"
    and "generateOrderNumber (d_rnd d2) \<notin> set (map orderNumber (orders s))"
  shows "(ledger (observe d2 pi (observe d1 pi s)) = ledger (observe d1 pi s)
          \<or> ledger (observe d2 pi (observe d1 pi s)) = ledger (observe d2 pi s))
         \<and> length (orders (observe d2 pi (observe d1 pi s))) \<le> Suc (length (orders s))"
proof (cases "d_channel d1")
  case c1: ViaConfirm
  show ?thesis
  proof (cases "d_channel d2")
    case c2: ViaConfirm
    with c1 assms(2) have ns: "pi_status pi \<noteq> ''succeeded''" by simp
    from redelivery_confirm_confirm[OF assms(1) ns, of d2 d1] c1 c2
      confirm_orders_same[OF ns]
    show ?thesis by (simp add: observe_def)
  next
    case c2: ViaWebhook
    from redelivery_confirm_webhook[OF assms(1,3), of d2 pi] c1 c2 confirm_orders_bound[of d1 pi s]
    show ?thesis by (simp add: observe_def)
  qed
next
  case c1: ViaWebhook
  show ?thesis
  proof (cases "d_channel d2")
    case c2: ViaConfirm
    from redelivery_webhook_confirm[OF assms(1,4), of pi d1] c1 c2
      confirm_orders_bound[of d2 pi "observe_on ViaWebhook d1 pi s"]
    show ?thesis by (simp add: observe_def)
  next
    case c2: ViaWebhook
    from redelivery_webhook_webhook[OF assms(1), of d2 pi d1] c1 c2
    show ?thesis by (simp add: observe_def)
  qed
qed


theorem redelivery_idempotent_witness:
  "(ledger (observe \<lparr>d_channel = ViaWebhook, d_user = alice, d_rnd = 8, d_now = 51\<rparr>
        (intent ''pi_1'' ''succeeded'' None)
        (observe \<lparr>d_channel = ViaConfirm, d_user = alice, d_rnd = 7, d_now = 50\<rparr>
           (intent ''pi_1'' ''succeeded'' None) (db [shop] [pay 100 ''pi_1'' ''pending''])))
     = ledger (observe \<lparr>d_channel = ViaConfirm, d_user = alice, d_rnd = 7, d_now = 50\<rparr>
           (intent ''pi_1'' ''succeeded'' None) (db [shop] [pay 100 ''pi_1'' ''pending'']))
    \<or> ledger (observe \<lparr>d_channel = ViaWebhook, d_user = alice, d_rnd = 8, d_now = 51\<rparr>
        (intent ''pi_1'' ''succeeded'' None)
        (observe \<lparr>d_channel = ViaConfirm, d_user = alice, d_rnd = 7, d_now = 50\<rparr>
           (intent ''pi_1'' ''succeeded'' None) (db [shop] [pay 100 ''pi_1'' ''pending''])))
     = ledger (observe \<lparr>d_channel = ViaWebhook, d_user = alice, d_rnd = 8, d_now = 51\<rparr>
           (intent ''pi_1'' ''succeeded'' None) (db [shop] [pay 100 ''pi_1'' ''pending''])))
   \<and> length (orders (observe \<lparr>d_channel = ViaWebhook, d_user = alice, d_rnd = 8, d_now = 51\<rparr>
        (intent ''pi_1'' ''succeeded'' None)
        (observe \<lparr>d_channel = ViaConfirm, d_user = alice, d_rnd = 7, d_now = 50\<rparr>
           (intent ''pi_1'' ''succeeded'' None) (db [shop] [pay 100 ''pi_1'' ''pending''])))) \<le> 1"
  using redelivery_idempotent [of "db [shop] [pay 100 ''pi_1'' ''pending'']"
      "\<lparr>d_channel = ViaConfirm, d_user = alice, d_rnd = 7, d_now = 50\<rparr>"
      "\<lparr>d_channel = ViaWebhook, d_user = alice, d_rnd = 8, d_now = 51\<rparr>"
      "intent ''pi_1'' ''succeeded'' None"]
  by (simp add: db_def pay_def unique_payments_def)

end
